theory Spec2Isabelle
  imports Complex_Main
begin

section \<open>JavaScript values\<close>

text \<open>
  A JavaScript \<^verbatim>\<open>number\<close> is \<^verbatim>\<open>NaN\<close>, one of the two infinities, or a finite value.
  A finite double denotes a rational, and comparing finite doubles (\<^verbatim>\<open><\<close>, \<^verbatim>\<open>>\<close>, \<^verbatim>\<open><=\<close>,
  \<^verbatim>\<open>===\<close>) is comparing the rationals they denote, so a finite number is a \<^typ>\<open>rat\<close>
  (\<^verbatim>\<open>-0\<close> and \<^verbatim>\<open>+0\<close> are the one value \<open>Fin 0\<close>, as \<^verbatim>\<open>===\<close> and \<^verbatim>\<open><\<close> see them). The
  arithmetic of the grid generator, with its rounding and overflow, is defined in its
  own section below.
\<close>

datatype jsnum = NaN | NegInf | Fin rat | PosInf

text \<open>A string is its list of UTF-16 code units, which is what \<^verbatim>\<open>.length\<close> counts.\<close>

type_synonym jsstring = "nat list"

text \<open>
  The values a row or a cell can hold. The declared type of a matrix is
  \<^verbatim>\<open>number[][]\<close>, but the code tests \<^verbatim>\<open>typeof v !== "number"\<close>, \<^verbatim>\<open>Array.isArray(row)\<close> and
  \<^verbatim>\<open>matrix[rowIndex] ?? []\<close>, so other values are part of its domain. A missing element of
  an array reads as \<open>Undefined\<close>.
\<close>

datatype jsval = Number jsnum | Undefined | Null | Str jsstring | Array "jsval list"

text \<open>\<^verbatim>\<open>a < b\<close> on numbers: false as soon as one side is \<^verbatim>\<open>NaN\<close>.\<close>

fun num_lt :: "jsnum \<Rightarrow> jsnum \<Rightarrow> bool" where
  "num_lt NaN b = False"
| "num_lt a NaN = False"
| "num_lt NegInf NegInf = False"
| "num_lt NegInf b = True"
| "num_lt (Fin x) NegInf = False"
| "num_lt (Fin x) (Fin y) = (x < y)"
| "num_lt (Fin x) PosInf = True"
| "num_lt PosInf b = False"

text \<open>\<^verbatim>\<open>a === b\<close> on numbers: \<^verbatim>\<open>NaN\<close> is equal to nothing.\<close>

definition num_eq :: "jsnum \<Rightarrow> jsnum \<Rightarrow> bool" where
  "num_eq a b = (a \<noteq> NaN \<and> b \<noteq> NaN \<and> a = b)"

text \<open>\<^verbatim>\<open>a <= b\<close> on numbers.\<close>

definition num_le :: "jsnum \<Rightarrow> jsnum \<Rightarrow> bool" where
  "num_le a b = (num_lt a b \<or> num_eq a b)"

text \<open>\<^verbatim>\<open>Number.isNaN\<close> and \<^verbatim>\<open>Number.isInteger\<close>.\<close>

definition isNaN :: "jsnum \<Rightarrow> bool" where
  "isNaN n = (n = NaN)"

fun isInteger :: "jsnum \<Rightarrow> bool" where
  "isInteger (Fin x) = (of_int \<lfloor>x\<rfloor> = x)"
| "isInteger n = False"

section \<open>The sign-run analyzer\<close>

text \<open>
  \<^verbatim>\<open>
  function signOf(v: unknown): -1 | 0 | 1 {
    if (typeof v !== "number" || Number.isNaN(v)) return 0;
    if (v > 0) return 1;
    if (v < 0) return -1;
    return 0;
  }
  \<close>
\<close>

fun signOf :: "jsval \<Rightarrow> int" where
  "signOf (Number v) =
     (if isNaN v then 0
      else if num_lt (Fin 0) v then 1
      else if num_lt v (Fin 0) then - 1
      else 0)"
| "signOf v = 0"

text \<open>
  The inner loop of \<^verbatim>\<open>minReplacementsToAvoidTriples\<close>, from index \<open>i\<close> with the counter
  \<open>chain\<close>; it returns both variables as the loop leaves them:
  \<^verbatim>\<open>
  while (i < rowLength && signOf(row[i]) === currentSign) { chain++; i++; }
  \<close>
\<close>

function chain_loop :: "jsval list \<Rightarrow> int \<Rightarrow> nat \<Rightarrow> int \<Rightarrow> nat \<times> int" where
  "chain_loop row currentSign i chain =
     (if i < length row \<and> signOf (row ! i) = currentSign
      then chain_loop row currentSign (i + 1) (chain + 1)
      else (i, chain))"
  by pat_completeness auto
termination
  by (relation "measure (\<lambda>(row, currentSign, i, chain). length row - i)") auto

declare chain_loop.simps [simp del]

lemma chain_loop_advances:
  "i < length row \<Longrightarrow> signOf (row ! i) = s \<Longrightarrow> i < fst (chain_loop row s i c)"
proof -
  have mono: "j \<le> fst (chain_loop row s j d)" for j d
    by (induction row s j d rule: chain_loop.induct)
       (subst chain_loop.simps, auto)
  assume "i < length row" "signOf (row ! i) = s"
  then have "chain_loop row s i c = chain_loop row s (i + 1) (c + 1)"
    by (subst chain_loop.simps) simp
  moreover have "i + 1 \<le> fst (chain_loop row s (i + 1) (c + 1))"
    by (rule mono)
  ultimately show ?thesis by simp
qed

lemma chain_loop_bound: "i \<le> length row \<Longrightarrow> fst (chain_loop row s i c) \<le> length row"
  by (induction row s i c rule: chain_loop.induct)
     (subst chain_loop.simps, auto)

text \<open>
  The outer loop, from index \<open>i\<close> with the running total \<open>replacements\<close>:
  \<^verbatim>\<open>
  while (i < rowLength) {
    const currentSign = signOf(row[i]);
    if (currentSign === 0) { i++; continue; }
    let chain = 0;
    while (...) { chain++; i++; }
    if (chain >= 3) replacements += Math.floor(chain / 3);
  }
  return replacements;
  \<close>
  It terminates because the inner loop, entered at a cell of sign \<open>currentSign\<close>,
  moves \<open>i\<close> forward.
\<close>

function scan_loop :: "jsval list \<Rightarrow> nat \<Rightarrow> int \<Rightarrow> int" where
  "scan_loop row i replacements =
     (if i < length row then
        (let currentSign = signOf (row ! i) in
         if currentSign = 0 then scan_loop row (i + 1) replacements
         else
           (case chain_loop row currentSign i 0 of
              (i', chain) \<Rightarrow>
                scan_loop row i'
                  (if chain \<ge> 3 then replacements + chain div 3 else replacements)))
      else replacements)"
  by pat_completeness auto
termination
proof (relation "measure (\<lambda>(row, i, replacements). length row - i)", goal_cases)
  case 1
  show ?case by simp
next
  case (2 row i replacements currentSign)
  then show ?case by simp
next
  case (3 row i replacements currentSign i' chain)
  then have res: "chain_loop row currentSign i 0 = (i', chain)"
    by simp
  from 3 have "i < fst (chain_loop row currentSign i 0)"
    by (intro chain_loop_advances) simp_all
  with res have "i < i'"
    by simp
  with 3 show ?case
    by (simp add: diff_less_mono2)
qed

declare scan_loop.simps [simp del]

text \<open>
  \<^verbatim>\<open>
  function minReplacementsToAvoidTriples(row: Row): number {
    if (!Array.isArray(row) || row.length === 0) return 0;
    let replacements = 0;
    let i = 0;
    const rowLength = row.length;
    ...
  }
  \<close>
\<close>

fun minReplacementsToAvoidTriples :: "jsval \<Rightarrow> int" where
  "minReplacementsToAvoidTriples (Array row) =
     (if length row = 0 then 0 else scan_loop row 0 0)"
| "minReplacementsToAvoidTriples v = 0"

section \<open>The minimum locator\<close>

text \<open>
  \<^verbatim>\<open>
  interface Position { rowIndex: number; colIndex: number; }
  interface GlobalMinResult {
    value: number | null;
    positions: Position[];
    rowsWithMin: Set<number>;
  }
  \<close>
  The field \<^verbatim>\<open>value\<close> is \<open>val\<close> here, and \<^verbatim>\<open>null\<close> is \<open>None\<close>.
\<close>

record Position =
  rowIndex :: nat
  colIndex :: nat

record GlobalMinResult =
  val :: "jsnum option"
  positions :: "Position list"
  rowsWithMin :: "nat set"

text \<open>
  The cells the inner loop visits in \<^verbatim>\<open>const row = matrix[rowIndex] ?? []\<close>, that is
  \<^verbatim>\<open>row[0]\<close>, ..., \<^verbatim>\<open>row[row.length - 1]\<close>: the elements of an array; nothing for
  \<^verbatim>\<open>null\<close> and \<^verbatim>\<open>undefined\<close>, which \<^verbatim>\<open>??\<close> replaces by \<^verbatim>\<open>[]\<close>; nothing for a number, whose
  \<^verbatim>\<open>length\<close> is \<^verbatim>\<open>undefined\<close>; and for a string its characters, each a string of length 1.
\<close>

fun elements :: "jsval \<Rightarrow> jsval list" where
  "elements (Array cells) = cells"
| "elements (Str s) = map (\<lambda>u. Str [u]) s"
| "elements v = []"

text \<open>
  The test of line 105, \<^verbatim>\<open>typeof cellValue !== "number" || Number.isNaN(cellValue)\<close>,
  negated: the cell is a candidate for the minimum.
\<close>

fun is_numeric :: "jsval \<Rightarrow> bool" where
  "is_numeric (Number v) = (\<not> isNaN v)"
| "is_numeric v = False"

text \<open>
  The inner loop, from \<open>colIdx\<close>, on the variables \<open>minValue\<close> and \<open>minPositions\<close>:
  \<^verbatim>\<open>
  for (let colIndex = 0; colIndex < row.length; colIndex++) {
    const cellValue = row[colIndex];
    if (typeof cellValue !== "number" || Number.isNaN(cellValue)) continue;
    if (cellValue < minValue) {
      minValue = cellValue;
      minPositions.length = 0;
      minPositions.push({ rowIndex, colIndex });
    } else if (cellValue === minValue) {
      minPositions.push({ rowIndex, colIndex });
    }
  }
  \<close>
\<close>

function col_loop ::
  "jsval list \<Rightarrow> nat \<Rightarrow> nat \<Rightarrow> jsnum \<times> Position list \<Rightarrow> jsnum \<times> Position list" where
  "col_loop row rowIdx colIdx (minValue, minPositions) =
     (if colIdx < length row then
        (case row ! colIdx of
           Number cellValue \<Rightarrow>
             if isNaN cellValue then
               col_loop row rowIdx (colIdx + 1) (minValue, minPositions)
             else if num_lt cellValue minValue then
               col_loop row rowIdx (colIdx + 1)
                 (cellValue, [\<lparr>rowIndex = rowIdx, colIndex = colIdx\<rparr>])
             else if num_eq cellValue minValue then
               col_loop row rowIdx (colIdx + 1)
                 (minValue, minPositions @ [\<lparr>rowIndex = rowIdx, colIndex = colIdx\<rparr>])
             else col_loop row rowIdx (colIdx + 1) (minValue, minPositions)
         | _ \<Rightarrow> col_loop row rowIdx (colIdx + 1) (minValue, minPositions))
      else (minValue, minPositions))"
  by pat_completeness auto
termination
  by (relation "measure (\<lambda>(row, rowIdx, colIdx, acc). length row - colIdx)") auto

declare col_loop.simps [simp del]

text \<open>
  The outer loop, from \<open>rowIdx\<close>:
  \<^verbatim>\<open>
  for (let rowIndex = 0; rowIndex < matrix.length; rowIndex++) {
    const row = matrix[rowIndex] ?? [];
    ...
  }
  \<close>
\<close>

function row_loop :: "jsval list \<Rightarrow> nat \<Rightarrow> jsnum \<times> Position list \<Rightarrow> jsnum \<times> Position list" where
  "row_loop matrix rowIdx acc =
     (if rowIdx < length matrix then
        row_loop matrix (rowIdx + 1) (col_loop (elements (matrix ! rowIdx)) rowIdx 0 acc)
      else acc)"
  by pat_completeness auto
termination
  by (relation "measure (\<lambda>(matrix, rowIdx, acc). length matrix - rowIdx)") auto

declare row_loop.simps [simp del]

text \<open>
  \<^verbatim>\<open>
  function findGlobalMin(matrix: Matrix): GlobalMinResult {
    let minValue = Infinity;
    const minPositions: Position[] = [];
    ...
    return {
      value: minValue === Infinity ? null : minValue,
      positions: minPositions,
      rowsWithMin: new Set(minPositions.map((pos) => pos.rowIndex)),
    };
  }
  \<close>
  The matrix is an array (for \<^verbatim>\<open>null\<close> or \<^verbatim>\<open>undefined\<close> the read of \<^verbatim>\<open>matrix.length\<close> would
  raise); its rows and cells are any values.
\<close>

definition findGlobalMin :: "jsval list \<Rightarrow> GlobalMinResult" where
  "findGlobalMin matrix =
     (case row_loop matrix 0 (PosInf, []) of
        (minValue, minPositions) \<Rightarrow>
          \<lparr> val = (if num_eq minValue PosInf then None else Some minValue),
            positions = minPositions,
            rowsWithMin = set (map rowIndex minPositions) \<rparr>)"

section \<open>Arithmetic on numbers\<close>

text \<open>
  The grid generator computes with numbers, so its model needs the arithmetic of
  doubles: the exact result of an operation on finite numbers is rounded to a double,
  and becomes an infinity on overflow.
\<close>

text \<open>
  The smallest positive double, \<open>2^-1074\<close>: every double is a multiple of it.
\<close>

definition tiny :: rat where
  "tiny = 1 / 2 ^ 1074"

text \<open>
  The unit in the last place at \<open>x\<close>: the distance between neighbouring doubles around
  \<open>x\<close>. It is \<open>2^(e-52)\<close> when \<open>2^e \<le> |x| < 2^(e+1)\<close>, for the exponents \<open>e\<close> from -1022
  to 1023 of the normal doubles, and \<open>2^-1074\<close> below \<open>2^-1022\<close>. \<open>ulp_search j x\<close> tries
  the units \<open>2^j * tiny\<close>, \<open>2^(j-1) * tiny\<close>, ... and takes the first that \<open>|x|\<close>
  reaches with a 53-bit significand.
\<close>

fun ulp_search :: "nat \<Rightarrow> rat \<Rightarrow> rat" where
  "ulp_search 0 x = tiny"
| "ulp_search (Suc j) x =
     (if 2 ^ 52 * (2 ^ Suc j * tiny) \<le> \<bar>x\<bar> then 2 ^ Suc j * tiny else ulp_search j x)"

definition ulp :: "rat \<Rightarrow> rat" where
  "ulp x = ulp_search 2045 x"

text \<open>Rounding to the nearest integer, a tie going to the even one.\<close>

definition round_half_even :: "rat \<Rightarrow> int" where
  "round_half_even q =
     (let f = \<lfloor>q\<rfloor>; d = q - of_int f
      in if d < 1 / 2 then f
         else if 1 / 2 < d then f + 1
         else if even f then f else f + 1)"

text \<open>
  The double that an arithmetic operation returns for the exact result \<open>x\<close>: the
  multiple of the unit nearest to \<open>x\<close>, ties to even, and an infinity when that is
  \<open>2^1024\<close> or more in magnitude (IEEE 754 binary64, round to nearest).
\<close>

definition round_double :: "rat \<Rightarrow> jsnum" where
  "round_double x =
     (let y = of_int (round_half_even (x / ulp x)) * ulp x
      in if 2 ^ 1024 \<le> y then PosInf
         else if y \<le> - (2 ^ 1024) then NegInf
         else Fin y)"


text \<open>\<^verbatim>\<open>a + b\<close>, \<^verbatim>\<open>-a\<close>, \<^verbatim>\<open>a - b\<close>, \<^verbatim>\<open>a * b\<close> and \<^verbatim>\<open>Math.floor(a)\<close> on numbers.\<close>

fun js_add :: "jsnum \<Rightarrow> jsnum \<Rightarrow> jsnum" where
  "js_add NaN b = NaN"
| "js_add a NaN = NaN"
| "js_add PosInf NegInf = NaN"
| "js_add NegInf PosInf = NaN"
| "js_add PosInf b = PosInf"
| "js_add NegInf b = NegInf"
| "js_add (Fin x) PosInf = PosInf"
| "js_add (Fin x) NegInf = NegInf"
| "js_add (Fin x) (Fin y) = round_double (x + y)"

fun js_neg :: "jsnum \<Rightarrow> jsnum" where
  "js_neg NaN = NaN"
| "js_neg PosInf = NegInf"
| "js_neg NegInf = PosInf"
| "js_neg (Fin x) = Fin (- x)"

definition js_sub :: "jsnum \<Rightarrow> jsnum \<Rightarrow> jsnum" where
  "js_sub a b = js_add a (js_neg b)"

fun js_mul :: "jsnum \<Rightarrow> jsnum \<Rightarrow> jsnum" where
  "js_mul NaN b = NaN"
| "js_mul a NaN = NaN"
| "js_mul (Fin x) (Fin y) = round_double (x * y)"
| "js_mul (Fin x) PosInf = (if x = 0 then NaN else if 0 < x then PosInf else NegInf)"
| "js_mul (Fin x) NegInf = (if x = 0 then NaN else if 0 < x then NegInf else PosInf)"
| "js_mul PosInf (Fin y) = (if y = 0 then NaN else if 0 < y then PosInf else NegInf)"
| "js_mul NegInf (Fin y) = (if y = 0 then NaN else if 0 < y then NegInf else PosInf)"
| "js_mul PosInf PosInf = PosInf"
| "js_mul PosInf NegInf = NegInf"
| "js_mul NegInf PosInf = NegInf"
| "js_mul NegInf NegInf = PosInf"

fun Math_floor :: "jsnum \<Rightarrow> jsnum" where
  "Math_floor (Fin x) = Fin (of_int \<lfloor>x\<rfloor>)"
| "Math_floor a = a"

section \<open>The grid generator\<close>

definition DEFAULT_ROWS :: jsnum where
  "DEFAULT_ROWS = Fin 10"

definition DEFAULT_COLS :: jsnum where
  "DEFAULT_COLS = Fin 10"

definition DEFAULT_MIN_VALUE :: jsnum where
  "DEFAULT_MIN_VALUE = Fin (- 100)"

definition DEFAULT_MAX_VALUE :: jsnum where
  "DEFAULT_MAX_VALUE = Fin 100"

text \<open>
  \<^verbatim>\<open>Math.random()\<close> is the program's one source of randomness. The model takes the
  sequence of its results as a parameter \<open>rnd\<close> and threads the number \<open>k\<close> of draws
  made so far; a call returns the next element and counts it. The language promises a
  result that is a double, at least 0 and less than 1: theorems that need this assume
  it of \<open>rnd\<close>.
\<close>

type_synonym random_source = "nat \<Rightarrow> rat"

definition Math_random :: "random_source \<Rightarrow> nat \<Rightarrow> rat \<times> nat" where
  "Math_random rnd k = (rnd k, k + 1)"

text \<open>
  \<^verbatim>\<open>
  function randInt(min: number, max: number): number {
    if (min > max) [min, max] = [max, min];
    return Math.floor(Math.random() * (max - min + 1)) + min;
  }
  \<close>
  The bounds are any numbers, and every operation is the operation on doubles.
\<close>

definition randInt :: "random_source \<Rightarrow> jsnum \<Rightarrow> jsnum \<Rightarrow> nat \<Rightarrow> jsnum \<times> nat" where
  "randInt rnd minv maxv k =
     (case (if num_lt maxv minv then (maxv, minv) else (minv, maxv)) of
        (minv', maxv') \<Rightarrow>
          (case Math_random rnd k of
             (u, k') \<Rightarrow>
               (js_add (Math_floor (js_mul (Fin u) (js_add (js_sub maxv' minv') (Fin 1)))) minv',
                k')))"

text \<open>
  The errors the program can end with: the \<^verbatim>\<open>TypeError\<close> that \<open>generateMatrix\<close> throws
  (and the one a call of a missing method raises), and the \<^verbatim>\<open>RangeError\<close> of the
  language for an array length it does not allow.
\<close>

datatype error = TypeError | RangeError

text \<open>
  \<^verbatim>\<open>Array.from({ length: n }, f)\<close> first creates an array of length \<open>n\<close>, which raises a
  \<^verbatim>\<open>RangeError\<close> when \<open>n\<close> is above \<open>2^32 - 1\<close>, and then fills it with the results of
  \<open>n\<close> calls of \<open>f\<close>, made in index order. \<open>f\<close> draws random numbers, so the count of
  draws is threaded through the calls, and \<open>f\<close> can itself raise an error, which ends
  the loop. (Memory is not bounded in the model.)
\<close>

fun Array_from_loop ::
  "nat \<Rightarrow> (nat \<Rightarrow> error + ('a \<times> nat)) \<Rightarrow> nat \<Rightarrow> error + ('a list \<times> nat)" where
  "Array_from_loop 0 f k = Inr ([], k)"
| "Array_from_loop (Suc n) f k =
     (case f k of
        Inl e \<Rightarrow> Inl e
      | Inr (x, k') \<Rightarrow>
          (case Array_from_loop n f k' of
             Inl e \<Rightarrow> Inl e
           | Inr (xs, k'') \<Rightarrow> Inr (x # xs, k'')))"

definition Array_from ::
  "nat \<Rightarrow> (nat \<Rightarrow> error + ('a \<times> nat)) \<Rightarrow> nat \<Rightarrow> error + ('a list \<times> nat)" where
  "Array_from n f k = (if 2 ^ 32 - 1 < n then Inl RangeError else Array_from_loop n f k)"

text \<open>
  The length that \<^verbatim>\<open>{ length: n }\<close> denotes, for a number \<open>n\<close>: \<open>n\<close> truncated to an
  integer, at least 0 and at most \<open>2^53 - 1\<close>.
\<close>

fun toLength :: "jsnum \<Rightarrow> nat" where
  "toLength (Fin x) = min (nat \<lfloor>x\<rfloor>) (2 ^ 53 - 1)"
| "toLength PosInf = 2 ^ 53 - 1"
| "toLength n = 0"

text \<open>
  \<^verbatim>\<open>
  function generateMatrix(
    rows: number = DEFAULT_ROWS, cols: number = DEFAULT_COLS,
    min: number = DEFAULT_MIN_VALUE, max: number = DEFAULT_MAX_VALUE
  ): Matrix {
    if (!Number.isInteger(rows) || !Number.isInteger(cols) || rows <= 0 || cols <= 0) {
      throw new TypeError("...");
    }
    return Array.from({ length: rows }, () =>
      Array.from({ length: cols }, () => randInt(min, max))
    );
  }
  \<close>
  An argument left out is \<open>None\<close> and takes its default. The \<^verbatim>\<open>throw\<close> is the result
  \<open>Inl TypeError\<close> (the specification calls it \<open>InvalidDimension\<close>); a returned matrix
  comes with the count of random draws after the call.
\<close>

definition generateMatrix ::
  "random_source \<Rightarrow> jsnum option \<Rightarrow> jsnum option \<Rightarrow> jsnum option \<Rightarrow> jsnum option \<Rightarrow> nat
   \<Rightarrow> error + (jsval list \<times> nat)" where
  "generateMatrix rnd rows_arg cols_arg min_arg max_arg k =
     (let rows = (case rows_arg of None \<Rightarrow> DEFAULT_ROWS | Some r \<Rightarrow> r);
          cols = (case cols_arg of None \<Rightarrow> DEFAULT_COLS | Some c \<Rightarrow> c);
          minv = (case min_arg of None \<Rightarrow> DEFAULT_MIN_VALUE | Some a \<Rightarrow> a);
          maxv = (case max_arg of None \<Rightarrow> DEFAULT_MAX_VALUE | Some b \<Rightarrow> b)
      in if \<not> isInteger rows \<or> \<not> isInteger cols \<or> num_le rows (Fin 0) \<or> num_le cols (Fin 0)
         then Inl TypeError
         else Array_from (toLength rows)
                (\<lambda>k. case Array_from (toLength cols)
                            (\<lambda>k. case randInt rnd minv maxv k of
                                    (n, k') \<Rightarrow> Inr (Number n, k')) k of
                       Inl e \<Rightarrow> Inl e
                     | Inr (cells, k') \<Rightarrow> Inr (Array cells, k'))
                k)"

section \<open>The table renderer\<close>

text \<open>A string literal of the source that is plain ASCII, as code units.\<close>

definition ascii :: "string \<Rightarrow> jsstring" where
  "ascii s = map of_char s"

record Colors =
  reset :: jsstring
  bold :: jsstring
  red :: jsstring
  yellow :: jsstring

definition COLORS :: Colors where
  "COLORS = \<lparr> reset = 27 # ascii ''[0m'', bold = 27 # ascii ''[1m'',
              red = 27 # ascii ''[31m'', yellow = 27 # ascii ''[43m'' \<rparr>"

text \<open>\<^verbatim>\<open>EMPTY_CELL\<close> is the one character U+2014, \<^verbatim>\<open>ROW_MARKER\<close> is \<^verbatim>\<open>"*"\<close>.\<close>

definition EMPTY_CELL :: jsstring where
  "EMPTY_CELL = [8212]"

definition ROW_MARKER :: jsstring where
  "ROW_MARKER = ascii ''*''"

text \<open>
  The three messages of the renderer are Russian text; they are given by their code
  units. \<open>EMPTY_MATRIX_NOTICE\<close> is the argument of the \<^verbatim>\<open>console.log\<close> at line 160,
  \<open>NO_MINIMUM_NOTICE\<close> the one at line 220, and \<open>MINIMUM_LABEL\<close> and \<open>FOUND_AT_LABEL\<close>
  are the two fixed parts of the template at lines 227 and 231.
\<close>

definition EMPTY_MATRIX_NOTICE :: jsstring where
  "EMPTY_MATRIX_NOTICE =
     [1052, 1072, 1090, 1088, 1080, 1094, 1072, 32, 1087, 1091, 1089, 1090, 1072, 46]"

definition NO_MINIMUM_NOTICE :: jsstring where
  "NO_MINIMUM_NOTICE =
     [1043, 1083, 1086, 1073, 1072, 1083, 1100, 1085, 1099, 1081, 32, 1084, 1080, 1085,
      1080, 1084, 1091, 1084, 32, 1085, 1077, 32, 1085, 1072, 1081, 1076, 1077, 1085, 32,
      40, 1085, 1077, 1090, 32, 1095, 1080, 1089, 1083, 1086, 1074, 1099, 1093, 32, 1079,
      1085, 1072, 1095, 1077, 1085, 1080, 1081, 41, 46]"

definition MINIMUM_LABEL :: jsstring where
  "MINIMUM_LABEL =
     [1043, 1083, 1086, 1073, 1072, 1083, 1100, 1085, 1099, 1081, 32, 1084, 1080, 1085,
      1080, 1084, 1091, 1084, 58, 32]"

definition FOUND_AT_LABEL :: jsstring where
  "FOUND_AT_LABEL =
     [32, 1085, 1072, 1081, 1076, 1077, 1085, 32, 1074, 32, 1087, 1086, 1079, 1080, 1094,
      1080, 1103, 1093, 58, 32]"

text \<open>\<^verbatim>\<open>s.padStart(width, " ")\<close>, \<^verbatim>\<open>parts.join(sep)\<close> and \<^verbatim>\<open>Math.min(...numbers)\<close>.\<close>

definition padStart :: "jsstring \<Rightarrow> nat \<Rightarrow> jsstring" where
  "padStart s width = replicate (width - length s) 32 @ s"

fun join :: "jsstring \<Rightarrow> jsstring list \<Rightarrow> jsstring" where
  "join sep [] = []"
| "join sep [s] = s"
| "join sep (s # t # ts) = s @ sep @ join sep (t # ts)"

definition Math_min :: "jsnum list \<Rightarrow> jsnum" where
  "Math_min numbers = fold (\<lambda>n m. if isNaN n \<or> isNaN m then NaN else if num_lt n m then n else m) numbers PosInf"

text \<open>
  \<^verbatim>\<open>String(v)\<close>. How a number prints is the engine's number-to-string conversion; the
  model takes it as the parameter \<open>numberToString\<close>. The other values print as the
  language defines: an array prints its elements joined by commas, with \<^verbatim>\<open>null\<close> and
  \<^verbatim>\<open>undefined\<close> elements printed as nothing.
\<close>

fun toString :: "(jsnum \<Rightarrow> jsstring) \<Rightarrow> jsval \<Rightarrow> jsstring" where
  "toString numberToString (Number n) = numberToString n"
| "toString numberToString Undefined = ascii ''undefined''"
| "toString numberToString Null = ascii ''null''"
| "toString numberToString (Str s) = s"
| "toString numberToString (Array vs) =
     join (ascii '','')
       (map (\<lambda>v. if v = Undefined \<or> v = Null then [] else toString numberToString v) vs)"

text \<open>
  \<^verbatim>\<open>
  function computeColWidth(matrix: Matrix): number {
    let maxCellLength = 1;
    for (const row of matrix) {
      if (!Array.isArray(row)) continue;
      for (const cell of row) {
        const cellStr = String(cell);
        if (cellStr.length > maxCellLength) maxCellLength = cellStr.length;
      }
    }
    const minWidth = 4;
    const padding = 1;
    return Math.max(minWidth, maxCellLength) + padding;
  }
  \<close>
\<close>

definition computeColWidth :: "(jsnum \<Rightarrow> jsstring) \<Rightarrow> jsval list \<Rightarrow> nat" where
  "computeColWidth numberToString matrix =
     (let maxCellLength =
            fold (\<lambda>row maxCellLength.
                    case row of
                      Array cells \<Rightarrow>
                        fold (\<lambda>cell maxCellLength.
                                let cellStr = toString numberToString cell in
                                if length cellStr > maxCellLength then length cellStr
                                else maxCellLength)
                          cells maxCellLength
                    | _ \<Rightarrow> maxCellLength)
              matrix 1;
          minWidth = 4;
          padding = 1
      in max minWidth maxCellLength + padding)"

text \<open>
  \<^verbatim>\<open>
  function formatCell(value, width, highlight = false, useColors = false): string {
    const s = String(value).padStart(width, " ");
    if (highlight && useColors) {
      return `${COLORS.yellow}${COLORS.bold}${s}${COLORS.reset}`;
    }
    return s;
  }
  \<close>
\<close>

definition formatCell :: "(jsnum \<Rightarrow> jsstring) \<Rightarrow> jsval \<Rightarrow> nat \<Rightarrow> bool \<Rightarrow> bool \<Rightarrow> jsstring" where
  "formatCell numberToString v width highlight useColors =
     (let s = padStart (toString numberToString v) width in
      if highlight \<and> useColors then yellow COLORS @ bold COLORS @ s @ reset COLORS
      else s)"

text \<open>
  \<^verbatim>\<open>cellValue === globalMin\<close>, where \<open>globalMin\<close> is a number or \<^verbatim>\<open>null\<close>: true for a number
  equal to the minimum, and for a \<^verbatim>\<open>null\<close> cell when the minimum is \<^verbatim>\<open>null\<close>.
\<close>

fun isGlobalMinCell :: "jsval \<Rightarrow> jsnum option \<Rightarrow> bool" where
  "isGlobalMinCell (Number n) (Some globalMin) = num_eq n globalMin"
| "isGlobalMinCell Null None = True"
| "isGlobalMinCell v globalMin = False"

text \<open>
  One pass of the body of the loop over the rows (lines 187 to 214): the line it
  prints, or the error it raises. \<^verbatim>\<open>matrix[rowIndex] ?? []\<close> replaces a \<^verbatim>\<open>null\<close> or
  \<^verbatim>\<open>undefined\<close> row by the empty array. A row that is a number or a string has no
  method \<^verbatim>\<open>filter\<close>: the call at line 199 raises a \<^verbatim>\<open>TypeError\<close>, before anything is
  printed for the row.
\<close>

definition rowLine ::
  "(jsnum \<Rightarrow> jsstring) \<Rightarrow> bool \<Rightarrow> nat \<Rightarrow> nat \<Rightarrow> jsnum option \<Rightarrow> nat set \<Rightarrow> jsval \<Rightarrow> nat
   \<Rightarrow> error + jsstring" where
  "rowLine numberToString useColors totalCols colWidth globalMin rowsWithMin' rowValue rowIdx =
     (case rowValue of
        Number n \<Rightarrow> Inl TypeError
      | Str s \<Rightarrow> Inl TypeError
      | _ \<Rightarrow>
        (let row = (case rowValue of Array cells \<Rightarrow> cells | _ \<Rightarrow> []);
             rowMarker = (if rowIdx \<in> rowsWithMin' then ROW_MARKER else ascii '' '');
             formattedCells =
               map (\<lambda>colIdx.
                      let cellValue = (if colIdx < length row then row ! colIdx else Str EMPTY_CELL)
                      in formatCell numberToString cellValue colWidth
                           (isGlobalMinCell cellValue globalMin) useColors)
                 [0..<totalCols];
             positiveNumbers =
               concat (map (\<lambda>v. case v of Number n \<Rightarrow> if num_lt (Fin 0) n then [n] else []
                                   | _ \<Rightarrow> []) row);
             minPositive = (if length positiveNumbers \<noteq> 0 then Some (Math_min positiveNumbers) else None);
             minPositiveStr = (case minPositive of None \<Rightarrow> EMPTY_CELL | Some n \<Rightarrow> numberToString n);
             replacementsCount = minReplacementsToAvoidTriples (Array row)
         in Inr (rowMarker @ ascii '' r'' @ padStart (numberToString (Fin (of_nat rowIdx))) 2
                 @ ascii '' |'' @ concat formattedCells
                 @ ascii '' | '' @ padStart minPositiveStr 6
                 @ ascii '' | '' @ padStart (numberToString (Fin (of_int replacementsCount))) 4)))"

text \<open>
  The loop over the rows, from \<open>rowIdx\<close>: the lines printed, in order, and the error
  that ended the loop early, if one did.
\<close>

function printRows ::
  "(jsnum \<Rightarrow> jsstring) \<Rightarrow> bool \<Rightarrow> nat \<Rightarrow> nat \<Rightarrow> jsnum option \<Rightarrow> nat set \<Rightarrow> jsval list \<Rightarrow> nat
   \<Rightarrow> jsstring list \<times> error option" where
  "printRows numberToString useColors totalCols colWidth globalMin rowsWithMin' matrix rowIdx =
     (if rowIdx < length matrix then
        (case rowLine numberToString useColors totalCols colWidth globalMin rowsWithMin'
                (matrix ! rowIdx) rowIdx of
           Inl e \<Rightarrow> ([], Some e)
         | Inr line \<Rightarrow>
             (case printRows numberToString useColors totalCols colWidth globalMin rowsWithMin'
                     matrix (rowIdx + 1) of
                (lines, e) \<Rightarrow> (line # lines, e)))
      else ([], None))"
  by pat_completeness auto
termination
  by (relation "measure (\<lambda>(numberToString, useColors, totalCols, colWidth, globalMin, rowsWithMin',
                           matrix, rowIdx). length matrix - rowIdx)") auto

declare printRows.simps [simp del]

text \<open>
  \<^verbatim>\<open>prettyPrintMatrix(matrix, options)\<close>. The result is the list of the strings given to
  \<^verbatim>\<open>console.log\<close>, one per call and in order, with the error that ended the call, if
  one did. \<open>isTTY\<close> is whether \<^verbatim>\<open>process.stdout.isTTY\<close> holds, \<open>useColors_option\<close> is
  \<^verbatim>\<open>options.useColors\<close> (\<open>None\<close> when it is left out), and \<open>numberToString\<close> is how the
  engine prints numbers.
  \<^verbatim>\<open>
    const useColors = options.useColors ?? defaultUseColors;
    if (!Array.isArray(matrix) || matrix.length === 0) {
      console.log("...");
      return;
    }
    const totalRows = matrix.length;
    const totalCols = Math.max(...matrix.map((row) => (Array.isArray(row) ? row.length : 0)));
    const { value: globalMin, positions: minPositions, rowsWithMin } = findGlobalMin(matrix);
    const colWidth = computeColWidth(matrix);
    const headerCells = Array.from({ length: totalCols }, (_, c) =>
      String("c" + c).padStart(colWidth, " "));
    const header = "     |" + headerCells.join("") + "  | minPos | replace";
    const separator = "-".repeat(header.length);
    console.log("\n" + header);
    console.log(separator);
    for (...) { ... }
    console.log(separator);
    if (globalMin === null) { console.log("..."); } else { ... }
    console.log();
  \<close>
\<close>

definition prettyPrintMatrix ::
  "(jsnum \<Rightarrow> jsstring) \<Rightarrow> bool \<Rightarrow> jsval \<Rightarrow> bool option \<Rightarrow> jsstring list \<times> error option" where
  "prettyPrintMatrix numberToString isTTY matrixValue useColors_option =
     (let defaultUseColors = isTTY;
          useColors = (case useColors_option of None \<Rightarrow> defaultUseColors | Some b \<Rightarrow> b)
      in case matrixValue of
           Array matrix \<Rightarrow>
             if length matrix = 0 then ([EMPTY_MATRIX_NOTICE], None)
             else
               (let totalCols =
                      fold max (map (\<lambda>row. case row of Array cells \<Rightarrow> length cells | _ \<Rightarrow> 0) matrix) 0;
                    found = findGlobalMin matrix;
                    globalMin = val found;
                    minPositions = positions found;
                    colWidth = computeColWidth numberToString matrix;
                    headerCells =
                      map (\<lambda>c. padStart (ascii ''c'' @ numberToString (Fin (of_nat c))) colWidth)
                        [0..<totalCols];
                    header = ascii ''     |'' @ concat headerCells @ ascii ''  | minPos | replace'';
                    separator = replicate (length header) 45
                in case printRows numberToString useColors totalCols colWidth globalMin
                          (rowsWithMin found) matrix 0 of
                     (lines, Some e) \<Rightarrow> ([10 # header, separator] @ lines, Some e)
                   | (lines, None) \<Rightarrow>
                       ([10 # header, separator] @ lines @ [separator]
                        @ [case globalMin of
                             None \<Rightarrow> NO_MINIMUM_NOTICE
                           | Some g \<Rightarrow>
                               (let positionsStr =
                                      join (ascii '', '')
                                        (map (\<lambda>p. ascii ''(r'' @ numberToString (Fin (of_nat (rowIndex p)))
                                                   @ ascii '',c'' @ numberToString (Fin (of_nat (colIndex p)))
                                                   @ ascii '')'')
                                           minPositions)
                                in if useColors
                                   then MINIMUM_LABEL @ red COLORS @ numberToString g @ reset COLORS
                                        @ FOUND_AT_LABEL @ positionsStr
                                   else MINIMUM_LABEL @ numberToString g @ FOUND_AT_LABEL @ positionsStr)]
                        @ [[]], None))
         | _ \<Rightarrow> ([EMPTY_MATRIX_NOTICE], None))"

section \<open>The sign-run rule as the specification words it\<close>

text \<open>
  The specification partitions the row's signs into maximal runs of equal consecutive
  signs and charges \<open>floor(L / 3)\<close> for every run of a non-neutral sign whose length
  \<open>L\<close> is at least 3. \<open>runs\<close> is that partition, as (sign, length) pairs from left
  to right; it is written from the specification, not from the loops above.
\<close>

fun runs :: "int list \<Rightarrow> (int \<times> nat) list" where
  "runs [] = []"
| "runs (s # ss) =
     (case runs ss of
        [] \<Rightarrow> [(s, 1)]
      | (t, n) # rs \<Rightarrow> if s = t then (t, n + 1) # rs else (s, 1) # (t, n) # rs)"

text \<open>What one run contributes: neutral runs and runs shorter than 3 contribute nothing.\<close>

fun run_cost :: "int \<times> nat \<Rightarrow> int" where
  "run_cost (s, L) = (if s \<noteq> 0 \<and> L \<ge> 3 then int (L div 3) else 0)"

text \<open>The count the specification asks for.\<close>

definition spec_minReplacements :: "jsval list \<Rightarrow> int" where
  "spec_minReplacements row = sum_list (map run_cost (runs (map signOf row)))"

section \<open>The cells of a grid, for stating what the locator returns\<close>

text \<open>
  The candidate cells of a grid, those that are numbers other than \<open>NaN\<close>, each with
  its position, in row-major order: first by row, then by column. These definitions
  are not taken from the loops of \<open>findGlobalMin\<close>; the theorems about it are stated
  with them.
\<close>

fun row_candidates :: "nat \<Rightarrow> nat \<Rightarrow> jsval list \<Rightarrow> (Position \<times> jsnum) list" where
  "row_candidates r c [] = []"
| "row_candidates r c (x # cells) =
     (case x of
        Number v \<Rightarrow> if isNaN v then [] else [(\<lparr>rowIndex = r, colIndex = c\<rparr>, v)]
      | _ \<Rightarrow> [])
     @ row_candidates r (c + 1) cells"

fun candidates_from :: "nat \<Rightarrow> jsval list \<Rightarrow> (Position \<times> jsnum) list" where
  "candidates_from r [] = []"
| "candidates_from r (row # rows) = row_candidates r 0 (elements row) @ candidates_from (r + 1) rows"

definition candidates :: "jsval list \<Rightarrow> (Position \<times> jsnum) list" where
  "candidates matrix = candidates_from 0 matrix"

text \<open>The cell at a position, when the grid has one there.\<close>

definition cellAt :: "jsval list \<Rightarrow> Position \<Rightarrow> jsval option" where
  "cellAt matrix p =
     (if rowIndex p < length matrix \<and> colIndex p < length (elements (matrix ! rowIndex p))
      then Some (elements (matrix ! rowIndex p) ! colIndex p) else None)"

text \<open>The effect on the running minimum and its positions of meeting one candidate.\<close>

fun visit :: "Position \<times> jsnum \<Rightarrow> jsnum \<times> Position list \<Rightarrow> jsnum \<times> Position list" where
  "visit (p, v) (minValue, minPositions) =
     (if num_lt v minValue then (v, [p])
      else if num_eq v minValue then (minValue, minPositions @ [p])
      else (minValue, minPositions))"

text \<open>
  The invariant of the scan after the candidates \<open>seen\<close>: the running minimum is not
  \<open>NaN\<close>, the positions are those of the candidates equal to it, in order, no candidate
  is below it, and it is the initial \<^verbatim>\<open>Infinity\<close> or the value of a candidate.
\<close>

definition scanned :: "(Position \<times> jsnum) list \<Rightarrow> jsnum \<times> Position list \<Rightarrow> bool" where
  "scanned seen acc =
     (fst acc \<noteq> NaN
      \<and> snd acc = map fst (filter (\<lambda>pv. snd pv = fst acc) seen)
      \<and> list_all (\<lambda>pv. \<not> num_lt (snd pv) (fst acc)) seen
      \<and> (fst acc = PosInf \<or> fst acc \<in> snd ` set seen))"

section \<open>Dimensions\<close>

text \<open>A dimension that is a positive integer: one of the numbers 1, 2, 3, ...\<close>

definition positive_integer :: "jsnum \<Rightarrow> bool" where
  "positive_integer v = (\<exists>n::nat. 0 < n \<and> v = Fin (of_nat n))"

section \<open>The two analyses as transition systems\<close>

text \<open>
  To speak of two invocations of an analysis, its statements are also given as a
  transition relation on the values of its variables: one rule for each way control
  can leave a test of the source, so that an invocation is a sequence of steps from the
  initial values to a result. The input (\<open>row\<close>, \<open>matrix\<close>) is a parameter of the
  relation and no rule changes it, as no statement of the source assigns to it.

  The states of \<^verbatim>\<open>minReplacementsToAvoidTriples\<close>: at the test of the outer loop with
  \<open>i\<close> and \<open>replacements\<close>; at the test of the inner loop with \<open>i\<close>, \<open>currentSign\<close>,
  \<open>chain\<close> and \<open>replacements\<close>; returned.
\<close>

datatype analyzer_state =
  Outer nat int
| Inner nat int int int
| Result int

inductive analyzer_step :: "jsval list \<Rightarrow> analyzer_state \<Rightarrow> analyzer_state \<Rightarrow> bool"
  for row :: "jsval list" where
  leave_outer:
    "\<not> i < length row \<Longrightarrow> analyzer_step row (Outer i replacements) (Result replacements)"
| skip_neutral:
    "i < length row \<Longrightarrow> signOf (row ! i) = 0 \<Longrightarrow>
     analyzer_step row (Outer i replacements) (Outer (i + 1) replacements)"
| enter_inner:
    "i < length row \<Longrightarrow> signOf (row ! i) \<noteq> 0 \<Longrightarrow>
     analyzer_step row (Outer i replacements) (Inner i (signOf (row ! i)) 0 replacements)"
| extend_chain:
    "i < length row \<Longrightarrow> signOf (row ! i) = currentSign \<Longrightarrow>
     analyzer_step row (Inner i currentSign chain replacements)
       (Inner (i + 1) currentSign (chain + 1) replacements)"
| leave_inner:
    "\<not> (i < length row \<and> signOf (row ! i) = currentSign) \<Longrightarrow>
     analyzer_step row (Inner i currentSign chain replacements)
       (Outer i (if chain \<ge> 3 then replacements + chain div 3 else replacements))"

text \<open>
  An invocation on any value: the early \<^verbatim>\<open>return 0\<close> of line 73, or the loop from
  \<open>i = 0\<close> and \<open>replacements = 0\<close> to its \<^verbatim>\<open>return\<close>.
\<close>

inductive analyzer_run :: "jsval \<Rightarrow> int \<Rightarrow> bool" where
  early_return:
    "(case v of Array row \<Rightarrow> length row = 0 | _ \<Rightarrow> True) \<Longrightarrow> analyzer_run v 0"
| loop_return:
    "length row \<noteq> 0 \<Longrightarrow> (analyzer_step row)\<^sup>*\<^sup>* (Outer 0 0) (Result replacements) \<Longrightarrow>
     analyzer_run (Array row) replacements"

text \<open>
  The states of \<^verbatim>\<open>findGlobalMin\<close>: in the loops with \<open>rowIndex\<close>, \<open>colIndex\<close>,
  \<open>minValue\<close> and \<open>minPositions\<close>; returned. The rules follow lines 101 to 121.
\<close>

datatype locator_state =
  Scan nat nat jsnum "Position list"
| Returned GlobalMinResult

inductive locator_step :: "jsval list \<Rightarrow> locator_state \<Rightarrow> locator_state \<Rightarrow> bool"
  for matrix :: "jsval list" where
  leave_rows:
    "\<not> rowIdx < length matrix \<Longrightarrow>
     locator_step matrix (Scan rowIdx colIdx minValue minPositions)
       (Returned \<lparr> val = (if num_eq minValue PosInf then None else Some minValue),
                   positions = minPositions,
                   rowsWithMin = set (map rowIndex minPositions) \<rparr>)"
| next_row:
    "rowIdx < length matrix \<Longrightarrow> \<not> colIdx < length (elements (matrix ! rowIdx)) \<Longrightarrow>
     locator_step matrix (Scan rowIdx colIdx minValue minPositions)
       (Scan (rowIdx + 1) 0 minValue minPositions)"
| skip_cell:
    "rowIdx < length matrix \<Longrightarrow> colIdx < length (elements (matrix ! rowIdx)) \<Longrightarrow>
     \<not> is_numeric (elements (matrix ! rowIdx) ! colIdx) \<Longrightarrow>
     locator_step matrix (Scan rowIdx colIdx minValue minPositions)
       (Scan rowIdx (colIdx + 1) minValue minPositions)"
| smaller:
    "rowIdx < length matrix \<Longrightarrow> colIdx < length (elements (matrix ! rowIdx)) \<Longrightarrow>
     elements (matrix ! rowIdx) ! colIdx = Number cellValue \<Longrightarrow> \<not> isNaN cellValue \<Longrightarrow>
     num_lt cellValue minValue \<Longrightarrow>
     locator_step matrix (Scan rowIdx colIdx minValue minPositions)
       (Scan rowIdx (colIdx + 1) cellValue [\<lparr>rowIndex = rowIdx, colIndex = colIdx\<rparr>])"
| equal:
    "rowIdx < length matrix \<Longrightarrow> colIdx < length (elements (matrix ! rowIdx)) \<Longrightarrow>
     elements (matrix ! rowIdx) ! colIdx = Number cellValue \<Longrightarrow> \<not> isNaN cellValue \<Longrightarrow>
     \<not> num_lt cellValue minValue \<Longrightarrow> num_eq cellValue minValue \<Longrightarrow>
     locator_step matrix (Scan rowIdx colIdx minValue minPositions)
       (Scan rowIdx (colIdx + 1) minValue
          (minPositions @ [\<lparr>rowIndex = rowIdx, colIndex = colIdx\<rparr>]))"
| larger:
    "rowIdx < length matrix \<Longrightarrow> colIdx < length (elements (matrix ! rowIdx)) \<Longrightarrow>
     elements (matrix ! rowIdx) ! colIdx = Number cellValue \<Longrightarrow> \<not> isNaN cellValue \<Longrightarrow>
     \<not> num_lt cellValue minValue \<Longrightarrow> \<not> num_eq cellValue minValue \<Longrightarrow>
     locator_step matrix (Scan rowIdx colIdx minValue minPositions)
       (Scan rowIdx (colIdx + 1) minValue minPositions)"

text \<open>An invocation starts with \<open>minValue = Infinity\<close> and no position.\<close>

definition locator_run :: "jsval list \<Rightarrow> GlobalMinResult \<Rightarrow> bool" where
  "locator_run matrix result = (locator_step matrix)\<^sup>*\<^sup>* (Scan 0 0 PosInf []) (Returned result)"

text \<open>What the body of the inner loop of \<^verbatim>\<open>findGlobalMin\<close> does to the running minimum at one cell.\<close>

definition cell_update :: "jsval list \<Rightarrow> nat \<Rightarrow> nat \<Rightarrow> jsnum \<times> Position list \<Rightarrow> jsnum \<times> Position list" where
  "cell_update row r c acc =
     (case row ! c of
        Number v \<Rightarrow> if isNaN v then acc else visit (\<lparr>rowIndex = r, colIndex = c\<rparr>, v) acc
      | _ \<Rightarrow> acc)"

section \<open>Properties of the sign-run analyzer\<close>

text \<open>
  \<open>runs\<close> is the partition into maximal runs: expanding the pairs gives the list back,
  no run is empty, and neighbouring runs differ in sign.
\<close>

lemma runs_expand: "concat (map (\<lambda>(s, n). replicate n s) (runs ss)) = ss"
  by (induction ss) (auto split: list.splits)

lemma runs_positive: "(s, n) \<in> set (runs ss) \<Longrightarrow> 0 < n"
  by (induction ss arbitrary: s n) (auto split: list.splits if_splits)

lemma runs_maximal: "distinct_adj (map fst (runs ss))"
  by (induction ss) (auto split: list.splits)

text \<open>The first run of a list is its longest prefix of one sign.\<close>

lemma runs_Cons:
  "runs (s # ss) = (s, Suc (length (takeWhile (\<lambda>t. t = s) ss))) # runs (dropWhile (\<lambda>t. t = s) ss)"
proof (induction ss)
  case Nil
  show ?case by simp
next
  case (Cons a ss)
  show ?case
  proof (cases "a = s")
    case True
    with Cons show ?thesis by simp
  next
    case False
    then show ?thesis by (cases "runs ss") (auto)
  qed
qed

text \<open>
  The inner loop counts the longest prefix of cells of the current sign, from index
  \<open>i\<close>, and stops behind it.
\<close>

lemma chain_loop_takeWhile:
  "i \<le> length row \<Longrightarrow>
   chain_loop row s i c =
     (i + length (takeWhile (\<lambda>v. signOf v = s) (drop i row)),
      c + int (length (takeWhile (\<lambda>v. signOf v = s) (drop i row))))"
proof (induction row s i c rule: chain_loop.induct)
  case (1 row s i c)
  show ?case
  proof (cases "i < length row \<and> signOf (row ! i) = s")
    case True
    then have d: "drop i row = row ! i # drop (i + 1) row"
      by (simp add: Cons_nth_drop_Suc)
    from True 1 show ?thesis
      by (subst chain_loop.simps) (simp add: d)
  next
    case False
    show ?thesis
    proof (cases "i < length row")
      case True
      then have d: "drop i row = row ! i # drop (i + 1) row"
        by (simp add: Cons_nth_drop_Suc)
      from True False show ?thesis
        by (subst chain_loop.simps) (simp add: d)
    next
      case False
      with 1 show ?thesis
        by (subst chain_loop.simps) simp
    qed
  qed
qed


text \<open>The count of the specification, unfolded at the first cell of a row.\<close>

lemma spec_neutral:
  "signOf x = 0 \<Longrightarrow> spec_minReplacements (x # xs) = spec_minReplacements xs"
  by (cases "runs (map signOf xs)") (auto simp: spec_minReplacements_def)

lemma spec_run:
  assumes "signOf x = s"
  shows "spec_minReplacements (x # xs) =
           run_cost (s, Suc (length (takeWhile (\<lambda>v. signOf v = s) xs)))
           + spec_minReplacements (dropWhile (\<lambda>v. signOf v = s) xs)"
proof -
  have "map signOf (x # xs) = s # map signOf xs"
    using assms by simp
  then have "runs (map signOf (x # xs)) =
      (s, Suc (length (takeWhile (\<lambda>t. t = s) (map signOf xs))))
      # runs (dropWhile (\<lambda>t. t = s) (map signOf xs))"
    by (simp only: runs_Cons)
  moreover have "takeWhile (\<lambda>t. t = s) (map signOf xs) = map signOf (takeWhile (\<lambda>v. signOf v = s) xs)"
    by (simp add: takeWhile_map comp_def)
  moreover have "dropWhile (\<lambda>t. t = s) (map signOf xs) = map signOf (dropWhile (\<lambda>v. signOf v = s) xs)"
    by (simp add: dropWhile_map comp_def)
  ultimately show ?thesis
    by (simp add: spec_minReplacements_def)
qed

text \<open>
  The outer loop, started at any index with any running total, adds the count of the
  rest of the row.
\<close>

lemma scan_loop_spec:
  "i \<le> length row \<Longrightarrow> scan_loop row i r = r + spec_minReplacements (drop i row)"
proof (induction row i r rule: scan_loop.induct)
  case (1 row i r)
  show ?case
  proof (cases "i < length row")
    case False
    with 1(3) show ?thesis
      by (subst scan_loop.simps) (simp add: spec_minReplacements_def)
  next
    case inside: True
    then have d: "drop i row = row ! i # drop (i + 1) row"
      by (simp add: Cons_nth_drop_Suc)
    define s where "s = signOf (row ! i)"
    show ?thesis
    proof (cases "s = 0")
      case True
      with inside 1(1)[of s] s_def have "scan_loop row (i + 1) r = r + spec_minReplacements (drop (i + 1) row)"
        by simp
      moreover from True s_def have "spec_minReplacements (drop i row) = spec_minReplacements (drop (i + 1) row)"
        by (simp add: d spec_neutral)
      moreover from inside True s_def have "scan_loop row i r = scan_loop row (i + 1) r"
        by (subst scan_loop.simps) simp
      ultimately show ?thesis by simp
    next
      case False
      define k where "k = length (takeWhile (\<lambda>v. signOf v = s) (drop (i + 1) row))"
      define r' where "r' = (if int (Suc k) \<ge> 3 then r + int (Suc k) div 3 else r)"
      have tw: "length (takeWhile (\<lambda>v. signOf v = s) (drop i row)) = Suc k"
        by (simp add: d k_def s_def)
      from inside have cl: "chain_loop row s i 0 = (i + Suc k, int (Suc k))"
        by (simp add: chain_loop_takeWhile tw del: of_nat_Suc)
      have bound: "i + Suc k \<le> length row"
        using chain_loop_bound[of i row s 0] inside cl by simp
      from 1(2)[of s "i + Suc k" "int (Suc k)"] inside False s_def cl bound
      have IH: "scan_loop row (i + Suc k) r' = r' + spec_minReplacements (drop (i + Suc k) row)"
        by (simp add: r'_def del: of_nat_Suc)
      have step: "scan_loop row i r = scan_loop row (i + Suc k) r'"
        using inside False s_def cl
        by (subst scan_loop.simps) (simp add: r'_def Let_def del: of_nat_Suc)
      have "drop (i + Suc k) row = drop k (drop (i + 1) row)"
        by (simp add: add.commute)
      also have "\<dots> = dropWhile (\<lambda>v. signOf v = s) (drop (i + 1) row)"
        by (simp add: k_def dropWhile_eq_drop)
      finally have dd: "drop (i + Suc k) row = dropWhile (\<lambda>v. signOf v = s) (drop (i + 1) row)" .
      have "spec_minReplacements (row ! i # drop (i + 1) row) =
              run_cost (s, Suc k)
              + spec_minReplacements (dropWhile (\<lambda>v. signOf v = s) (drop (i + 1) row))"
        unfolding k_def by (rule spec_run) (simp add: s_def)
      then have "spec_minReplacements (drop i row) =
              run_cost (s, Suc k) + spec_minReplacements (drop (i + Suc k) row)"
        by (simp only: d dd)
      moreover have "r' = r + run_cost (s, Suc k)"
        using False by (simp add: r'_def zdiv_int del: of_nat_Suc) 
      ultimately show ?thesis
        using step IH by simp
    qed
  qed
qed

lemma minReplacements_spec:
  "minReplacementsToAvoidTriples (Array row) = spec_minReplacements row"
  by (simp add: scan_loop_spec) (simp add: spec_minReplacements_def)


text \<open>Bounds on the count, and the sign of a sign.\<close>

lemma run_cost_nonneg: "0 \<le> run_cost r"
  by (cases r) simp

lemma spec_nonneg: "0 \<le> spec_minReplacements row"
  unfolding spec_minReplacements_def
  by (rule sum_list_nonneg) (auto simp: run_cost_nonneg)

lemma runs_total_length: "sum_list (map snd (runs ss)) = length ss"
  by (induction ss) (auto split: list.splits)

lemma run_cost_le: "run_cost (s, L) \<le> int (L div 3)"
  by simp

lemma cost_le_third: "sum_list (map run_cost rs) \<le> int (sum_list (map snd rs) div 3)"
proof (induction rs)
  case Nil
  show ?case by simp
next
  case (Cons r rs)
  obtain s L where r: "r = (s, L)" by (cases r)
  have "run_cost r \<le> int (L div 3)"
    unfolding r by (rule run_cost_le)
  moreover have "L div 3 + sum_list (map snd rs) div 3 \<le> (L + sum_list (map snd rs)) div 3"
    by arith
  ultimately show ?case
    using Cons r by (simp del: run_cost.simps)
qed

lemma signOf_idem: "signOf (Number (Fin (of_int (signOf c)))) = signOf c"
proof -
  have "signOf c = 1 \<or> signOf c = - 1 \<or> signOf c = 0"
    by (cases c) (auto)
  then show ?thesis
    by (auto simp: isNaN_def)
qed

text \<open>
  C6. \<open>minReplacementsToAvoidTriples\<close> never fails: it is a total function (both of its
  loops terminate, and it has no failing operation), its result is a non-negative
  integer on every input, whatever the cells are, and it is exactly 0 on the empty row
  and on every input that is not an array.
\<close>

theorem minReplacements_total_nonneg:
  "0 \<le> minReplacementsToAvoidTriples v
   \<and> minReplacementsToAvoidTriples (Array []) = 0
   \<and> minReplacementsToAvoidTriples Undefined = 0
   \<and> minReplacementsToAvoidTriples Null = 0
   \<and> minReplacementsToAvoidTriples (Number n) = 0
   \<and> minReplacementsToAvoidTriples (Str s) = 0"
proof -
  have "0 \<le> minReplacementsToAvoidTriples v"
  proof (cases v)
    case (Array row)
    then show ?thesis 
      by (simp only: minReplacements_spec spec_nonneg)
  qed simp_all
  then show ?thesis by simp
qed

text \<open>
  C9. The result depends only on the signs of the cells: replacing every cell of a row
  by its sign \<open>signOf cell\<close>, one of the numbers -1, 0 and 1, does not change the result.
\<close>

theorem minReplacements_depends_on_signs:
  "minReplacementsToAvoidTriples (Array (map (\<lambda>c. Number (Fin (of_int (signOf c)))) row))
   = minReplacementsToAvoidTriples (Array row)"
proof -
  have "map signOf (map (\<lambda>c. Number (Fin (of_int (signOf c)))) row) = map signOf row"
    by (simp add: signOf_idem del: signOf.simps)
  then show ?thesis
    by (simp only: minReplacements_spec spec_minReplacements_def)
qed

text \<open>
  C10. On a row of length \<open>n\<close> the result is at most \<open>floor(n / 3)\<close>.
\<close>

theorem minReplacements_le_third:
  "minReplacementsToAvoidTriples (Array row) \<le> int (length row div 3)"
proof -
  have "sum_list (map run_cost (runs (map signOf row)))
          \<le> int (sum_list (map snd (runs (map signOf row))) div 3)"
    by (rule cost_le_third)
  then show ?thesis
    by (simp only: minReplacements_spec spec_minReplacements_def runs_total_length length_map)
qed

section \<open>Properties of the minimum locator\<close>

text \<open>
  The two loops visit the candidate cells of the grid in row-major order, and do to
  the running minimum what \<open>visit\<close> says at each.
\<close>

lemma col_loop_fold:
  "col_loop row r c acc = fold visit (row_candidates r c (drop c row)) acc"
proof (induction row r c acc rule: col_loop.induct)
  case (1 row r c minValue minPositions)
  show ?case
  proof (cases "c < length row")
    case False
    then show ?thesis by (subst col_loop.simps) simp
  next
    case True
    then have d: "drop c row = row ! c # drop (c + 1) row"
      by (simp add: Cons_nth_drop_Suc)
    show ?thesis
    proof (cases "row ! c")
      case (Number v)
      with True 1(1-4)[of v] show ?thesis
        by (subst col_loop.simps) (simp add: d)
    next
      case Undefined
      with True 1(5) show ?thesis by (subst col_loop.simps) (simp add: d)
    next
      case Null
      with True 1(6) show ?thesis by (subst col_loop.simps) (simp add: d)
    next
      case (Str s)
      with True 1(7)[of s] show ?thesis by (subst col_loop.simps) (simp add: d)
    next
      case (Array xs)
      with True 1(8)[of xs] show ?thesis by (subst col_loop.simps) (simp add: d)
    qed
  qed
qed

lemma row_loop_fold:
  "row_loop matrix r acc = fold visit (candidates_from r (drop r matrix)) acc"
proof (induction matrix r acc rule: row_loop.induct)
  case (1 matrix r acc)
  show ?case
  proof (cases "r < length matrix")
    case False
    then show ?thesis by (subst row_loop.simps) simp
  next
    case True
    then have d: "drop r matrix = matrix ! r # drop (r + 1) matrix"
      by (simp add: Cons_nth_drop_Suc)
    from True 1 show ?thesis
      by (subst row_loop.simps) (simp add: d col_loop_fold)
  qed
qed


text \<open>\<^verbatim>\<open><\<close> on numbers is transitive and irreflexive, and \<^verbatim>\<open>Infinity\<close> is above every other number.\<close>

lemma num_lt_trans: "num_lt a b \<Longrightarrow> num_lt b c \<Longrightarrow> num_lt a c"
  by (cases a; cases b; cases c) auto

lemma num_lt_irrefl: "\<not> num_lt a a"
  by (cases a) auto

lemma num_lt_PosInf: "v \<noteq> NaN \<Longrightarrow> v \<noteq> PosInf \<Longrightarrow> num_lt v PosInf"
  by (cases v) auto

lemma row_candidates_not_NaN: "(p, v) \<in> set (row_candidates r c cells) \<Longrightarrow> v \<noteq> NaN"
  by (induction r c cells rule: row_candidates.induct)
     (auto simp: isNaN_def split: jsval.splits if_splits)

lemma candidates_from_not_NaN: "(p, v) \<in> set (candidates_from r rows) \<Longrightarrow> v \<noteq> NaN"
  by (induction r rows rule: candidates_from.induct) (auto dest: row_candidates_not_NaN)

text \<open>The invariant holds initially and every candidate met preserves it.\<close>

lemma scanned_init: "scanned [] (PosInf, [])"
  by (simp add: scanned_def)

lemma scanned_visit:
  assumes "scanned seen acc" and "v \<noteq> NaN"
  shows "scanned (seen @ [(p, v)]) (visit (p, v) acc)"
proof -
  obtain mv ps where acc: "acc = (mv, ps)" by (cases acc)
  from assms(1) have mv: "mv \<noteq> NaN"
    and ps: "ps = map fst (filter (\<lambda>pv. snd pv = mv) seen)"
    and low: "list_all (\<lambda>pv. \<not> num_lt (snd pv) mv) seen"
    and att: "mv = PosInf \<or> mv \<in> snd ` set seen"
    by (simp_all add: scanned_def acc)
  show ?thesis
  proof (cases "num_lt v mv")
    case True
    have "filter (\<lambda>pv. snd pv = v) seen = []"
      using low True by (auto simp: list_all_iff filter_empty_conv)
    moreover have "list_all (\<lambda>pv. \<not> num_lt (snd pv) v) seen"
      using low True by (auto simp: list_all_iff dest: num_lt_trans)
    ultimately show ?thesis
      using True assms(2) by (simp add: scanned_def acc num_lt_irrefl)
  next
    case False
    show ?thesis
    proof (cases "num_eq v mv")
      case True
      then have "v = mv" by (simp add: num_eq_def)
      with False True mv ps low att show ?thesis
        by (auto simp: scanned_def acc)
    next
      case neq: False
      with assms(2) mv have "v \<noteq> mv" by (simp add: num_eq_def)
      with False neq mv ps low att show ?thesis
        by (auto simp: scanned_def acc)
    qed
  qed
qed

lemma scanned_fold:
  "scanned seen acc \<Longrightarrow> list_all (\<lambda>pv. snd pv \<noteq> NaN) cs \<Longrightarrow>
   scanned (seen @ cs) (fold visit cs acc)"
proof (induction cs arbitrary: seen acc)
  case Nil
  then show ?case by simp
next
  case (Cons pv cs)
  obtain p v where pv: "pv = (p, v)" by (cases pv)
  from Cons.prems pv have "scanned (seen @ [(p, v)]) (visit (p, v) acc)"
    by (intro scanned_visit) simp_all
  from Cons.IH[OF this] Cons.prems(2) show ?case
    by (simp add: pv)
qed

lemma row_loop_scanned: "scanned (candidates matrix) (row_loop matrix 0 (PosInf, []))"
proof -
  have "list_all (\<lambda>pv. snd pv \<noteq> NaN) (candidates matrix)"
    by (auto simp: list_all_iff candidates_def dest: candidates_from_not_NaN)
  from scanned_fold[OF scanned_init this] show ?thesis
    by (simp add: row_loop_fold candidates_def)
qed


text \<open>A grid with no numeric cell has no candidate.\<close>

lemma row_candidates_empty:
  "\<forall>cell \<in> set cells. \<not> is_numeric cell \<Longrightarrow> row_candidates r c cells = []"
  by (induction r c cells rule: row_candidates.induct) (auto split: jsval.splits)

lemma candidates_from_empty:
  "\<forall>row \<in> set rows. \<forall>cell \<in> set (elements row). \<not> is_numeric cell \<Longrightarrow>
   candidates_from r rows = []"
  by (induction r rows rule: candidates_from.induct) (auto simp: row_candidates_empty)

text \<open>A candidate is the cell of the grid at its position.\<close>

lemma nth_Cons_shift: "Suc c \<le> k \<Longrightarrow> (x # xs) ! (k - c) = xs ! (k - Suc c)"
proof -
  assume "Suc c \<le> k"
  then have "k - c = Suc (k - Suc c)" by arith
  then show ?thesis by simp
qed

lemma row_candidates_cell:
  "(p, v) \<in> set (row_candidates r c cells) \<Longrightarrow>
   rowIndex p = r \<and> c \<le> colIndex p \<and> colIndex p - c < length cells
   \<and> cells ! (colIndex p - c) = Number v"
proof (induction r c cells rule: row_candidates.induct)
  case (1 r c)
  then show ?case by simp
next
  case (2 r c x cells)
  show ?case
  proof (cases "(p, v) \<in> set (row_candidates r (c + 1) cells)")
    case True
    from 2(1)[OF True] have
      "rowIndex p = r \<and> Suc c \<le> colIndex p \<and> colIndex p - Suc c < length cells
       \<and> cells ! (colIndex p - Suc c) = Number v"
      by simp
    then show ?thesis
      by (auto simp: nth_Cons_shift)
  next
    case False
    with 2(2) show ?thesis
      by (auto split: jsval.splits if_splits)
  qed
qed

lemma candidates_from_cell:
  "(p, v) \<in> set (candidates_from r rows) \<Longrightarrow>
   r \<le> rowIndex p \<and> rowIndex p - r < length rows
   \<and> colIndex p < length (elements (rows ! (rowIndex p - r)))
   \<and> elements (rows ! (rowIndex p - r)) ! colIndex p = Number v"
proof (induction r rows rule: candidates_from.induct)
  case (1 r)
  then show ?case by simp
next
  case (2 r row rows)
  show ?case
  proof (cases "(p, v) \<in> set (row_candidates r 0 (elements row))")
    case True
    from row_candidates_cell[OF this] show ?thesis by simp
  next
    case False
    with 2 have "Suc r \<le> rowIndex p \<and> rowIndex p - Suc r < length rows
       \<and> colIndex p < length (elements (rows ! (rowIndex p - Suc r)))
       \<and> elements (rows ! (rowIndex p - Suc r)) ! colIndex p = Number v"
      by simp
    then show ?thesis
      by (auto simp: nth_Cons_shift)
  qed
qed

lemma candidates_cellAt:
  "(p, v) \<in> set (candidates matrix) \<Longrightarrow> cellAt matrix p = Some (Number v)"
  using candidates_from_cell[of p v 0 matrix] by (simp add: candidates_def cellAt_def)


text \<open>
  What \<open>findGlobalMin\<close> returns. Whenever it reports a value \<open>v\<close>, the positions are
  those of all the candidates equal to \<open>v\<close>, in row-major order, each position holds the
  number \<open>v\<close>, and no candidate is below \<open>v\<close>. It reports a value as soon as a
  candidate is not \<^verbatim>\<open>Infinity\<close>.
\<close>

lemma findGlobalMin_scanned:
  "\<exists>mv. scanned (candidates matrix) (mv, positions (findGlobalMin matrix))
        \<and> val (findGlobalMin matrix) = (if mv = PosInf then None else Some mv)"
proof -
  obtain mv ps where rl: "row_loop matrix 0 (PosInf, []) = (mv, ps)"
    by (cases "row_loop matrix 0 (PosInf, [])")
  with row_loop_scanned[of matrix] have "scanned (candidates matrix) (mv, ps)"
    by simp
  with rl show ?thesis
    by (auto simp: findGlobalMin_def num_eq_def scanned_def)
qed

lemma findGlobalMin_reported:
  assumes "val (findGlobalMin matrix) = Some v"
  shows "positions (findGlobalMin matrix) = map fst (filter (\<lambda>pv. snd pv = v) (candidates matrix))"
    and "\<forall>p \<in> set (positions (findGlobalMin matrix)). cellAt matrix p = Some (Number v)"
    and "\<forall>pv \<in> set (candidates matrix). \<not> num_lt (snd pv) v"
proof -
  from findGlobalMin_scanned[of matrix] assms
  have sc: "scanned (candidates matrix) (v, positions (findGlobalMin matrix))"
    by (auto split: if_splits)
  then show pos: "positions (findGlobalMin matrix) = map fst (filter (\<lambda>pv. snd pv = v) (candidates matrix))"
    by (simp add: scanned_def)
  show "\<forall>p \<in> set (positions (findGlobalMin matrix)). cellAt matrix p = Some (Number v)"
    unfolding pos by (auto intro: candidates_cellAt)
  from sc show "\<forall>pv \<in> set (candidates matrix). \<not> num_lt (snd pv) v"
    by (simp add: scanned_def list_all_iff)
qed

lemma findGlobalMin_finite_candidate:
  assumes "(p, w) \<in> set (candidates matrix)" and "w \<noteq> PosInf"
  shows "\<exists>v. val (findGlobalMin matrix) = Some v"
proof -
  from findGlobalMin_scanned[of matrix] obtain mv where
    sc: "scanned (candidates matrix) (mv, positions (findGlobalMin matrix))"
    and v: "val (findGlobalMin matrix) = (if mv = PosInf then None else Some mv)"
    by blast
  from assms(1) have "w \<noteq> NaN"
    by (auto simp: candidates_def dest: candidates_from_not_NaN)
  with assms(2) have "num_lt w PosInf" by (simp add: num_lt_PosInf)
  moreover from sc assms(1) have "\<not> num_lt w mv"
    by (auto simp: scanned_def list_all_iff)
  ultimately have "mv \<noteq> PosInf" by auto
  with v show ?thesis by simp
qed

text \<open>
  On a grid with no cell \<^verbatim>\<open>Infinity\<close>, every returned position holds a number equal to the
  returned value, and the positions are all the occurrences of that value among the
  candidates, in row-major order.
\<close>

lemma cellAt_in_row:
  "cellAt matrix p = Some x \<Longrightarrow> \<exists>row \<in> set matrix. x \<in> set (elements row)"
proof -
  assume "cellAt matrix p = Some x"
  then have r: "rowIndex p < length matrix"
    and c: "colIndex p < length (elements (matrix ! rowIndex p))"
    and x: "x = elements (matrix ! rowIndex p) ! colIndex p"
    by (auto simp: cellAt_def split: if_splits)
  from r have "matrix ! rowIndex p \<in> set matrix" by simp
  moreover from c x have "x \<in> set (elements (matrix ! rowIndex p))" by simp
  ultimately show ?thesis by blast
qed

lemma findGlobalMin_without_infinity:
  assumes "\<forall>row \<in> set matrix. Number PosInf \<notin> set (elements row)"
  shows "\<forall>p \<in> set (positions (findGlobalMin matrix)).
           \<exists>v. val (findGlobalMin matrix) = Some v \<and> cellAt matrix p = Some (Number v)"
    and "positions (findGlobalMin matrix) =
           map fst (filter (\<lambda>pv. val (findGlobalMin matrix) = Some (snd pv)) (candidates matrix))"
proof -
  have noinf: "w \<noteq> PosInf" if "(p, w) \<in> set (candidates matrix)" for p w
    using candidates_cellAt[OF that] assms by (auto dest: cellAt_in_row)
  show "positions (findGlobalMin matrix) =
           map fst (filter (\<lambda>pv. val (findGlobalMin matrix) = Some (snd pv)) (candidates matrix))"
  proof (cases "candidates matrix")
    case Nil
    with findGlobalMin_scanned[of matrix] show ?thesis
      by (auto simp: scanned_def)
  next
    case (Cons pw cs)
    obtain p w where "pw = (p, w)" by (cases pw)
    with Cons have mem: "(p, w) \<in> set (candidates matrix)" by simp
    from findGlobalMin_finite_candidate[OF mem noinf[OF mem]]
    obtain v where v: "val (findGlobalMin matrix) = Some v" ..
    have f: "filter (\<lambda>pv. val (findGlobalMin matrix) = Some (snd pv)) (candidates matrix)
        = filter (\<lambda>pv. snd pv = v) (candidates matrix)"
      by (rule filter_cong) (auto simp: v)
    show ?thesis
      unfolding f by (rule findGlobalMin_reported(1)[OF v])
  qed
  then have "\<forall>p \<in> set (positions (findGlobalMin matrix)).
      \<exists>v. val (findGlobalMin matrix) = Some v \<and> (p, v) \<in> set (candidates matrix)"
    by auto
  then show "\<forall>p \<in> set (positions (findGlobalMin matrix)).
           \<exists>v. val (findGlobalMin matrix) = Some v \<and> cellAt matrix p = Some (Number v)"
    by (blast intro: candidates_cellAt)
qed

text \<open>
  C3. On a grid in which no cell is a number other than \<open>NaN\<close>, \<open>findGlobalMin\<close> returns
  the absent value (\<^verbatim>\<open>null\<close>, here \<open>None\<close>) and an empty list of positions.
\<close>

theorem findGlobalMin_no_numeric_cell:
  assumes "\<forall>row \<in> set matrix. \<forall>cell \<in> set (elements row). \<not> is_numeric cell"
  shows "val (findGlobalMin matrix) = None \<and> positions (findGlobalMin matrix) = []"
proof -
  from assms have "candidates matrix = []"
    by (simp add: candidates_def candidates_from_empty)
  then have "row_loop matrix 0 (PosInf, []) = (PosInf, [])"
    by (simp add: row_loop_fold candidates_def)
  then show ?thesis
    by (simp add: findGlobalMin_def num_eq_def)
qed

text \<open>
  The theorem on a grid of \<open>NaN\<close>, \<^verbatim>\<open>undefined\<close>, \<^verbatim>\<open>null\<close> and strings, with a missing row, an
  empty row and a row that is a string.
\<close>

theorem findGlobalMin_no_numeric_cell_witness:
  "val (findGlobalMin [Array [Number NaN, Undefined, Null, Str [97]], Null, Array [], Str [49, 50]]) = None
   \<and> positions (findGlobalMin [Array [Number NaN, Undefined, Null, Str [97]], Null, Array [], Str [49, 50]]) = []"
  by (rule findGlobalMin_no_numeric_cell) (simp add: isNaN_def)

text \<open>
  C2. The claim is that every returned position holds a cell equal to the returned
  minimum. The running minimum starts at \<^verbatim>\<open>Infinity\<close>, and \<^verbatim>\<open>Infinity\<close> as the final value
  is reported as \<^verbatim>\<open>null\<close>. On the grid \<open>[[Infinity]]\<close> the cell is a candidate, it is equal
  to the running minimum and its position is recorded, but the value returned is
  \<^verbatim>\<open>null\<close>: the position \<open>(0,0)\<close> is returned, and its cell \<^verbatim>\<open>Infinity\<close> is not the returned
  value. (\<open>findGlobalMin_reported\<close> and \<open>findGlobalMin_without_infinity\<close> above prove the
  claim for every grid on which a minimum is reported, and for every grid with no cell
  \<^verbatim>\<open>Infinity\<close>.)
\<close>

theorem findGlobalMin_infinity_cell:
  "val (findGlobalMin [Array [Number PosInf]]) = None
   \<and> positions (findGlobalMin [Array [Number PosInf]]) = [\<lparr>rowIndex = 0, colIndex = 0\<rparr>]
   \<and> cellAt [Array [Number PosInf]] \<lparr>rowIndex = 0, colIndex = 0\<rparr> = Some (Number PosInf)"
  by (simp add: findGlobalMin_def row_loop.simps col_loop.simps isNaN_def num_eq_def cellAt_def)

text \<open>The grid \<open>[[5,1],[1,3]]\<close> of the specification.\<close>

lemma findGlobalMin_example:
  "val (findGlobalMin [Array [Number (Fin 5), Number (Fin 1)], Array [Number (Fin 1), Number (Fin 3)]]) = Some (Fin 1)
   \<and> positions (findGlobalMin [Array [Number (Fin 5), Number (Fin 1)], Array [Number (Fin 1), Number (Fin 3)]])
       = [\<lparr>rowIndex = 0, colIndex = 1\<rparr>, \<lparr>rowIndex = 1, colIndex = 0\<rparr>]"
  by (simp add: findGlobalMin_def row_loop.simps col_loop.simps isNaN_def num_eq_def)

section \<open>Properties of the arithmetic on numbers\<close>











lemma round_half_even_floor: "\<lfloor>q\<rfloor> \<le> round_half_even q"
  by (simp add: round_half_even_def Let_def)









text \<open>An exact result of \<open>2^1024\<close> or more overflows to \<^verbatim>\<open>Infinity\<close>.\<close>

lemma ulp_top: "2 ^ 1023 \<le> \<bar>x\<bar> \<Longrightarrow> ulp x = 2 ^ 971"
proof -
  assume x: "2 ^ 1023 \<le> \<bar>x\<bar>"
  have b: "(2::rat) ^ Suc 2044 * tiny = 2 ^ 971"
    by (simp add: tiny_def)
  have a: "(2::rat) ^ 52 * 2 ^ 971 = 2 ^ 1023"
    by (simp only: power_add[symmetric]) simp
  have "ulp_search (Suc 2044) x = 2 ^ 971"
    using x by (simp only: ulp_search.simps b a if_True)
  then show ?thesis
    by (simp add: ulp_def)
qed

lemma round_double_overflow: "2 ^ 1024 \<le> x \<Longrightarrow> round_double x = PosInf"
proof -
  assume x: "2 ^ 1024 \<le> x"
  have "(2::rat) ^ 1023 \<le> 2 ^ 1024" by simp
  with x have "2 ^ 1023 \<le> \<bar>x\<bar>" by linarith
  then have u: "ulp x = 2 ^ 971" by (rule ulp_top)
  have "(2::rat) ^ 1024 = 2 ^ 53 * 2 ^ 971"
    by (simp only: power_add[symmetric]) simp
  with x have "of_int (2 ^ 53) \<le> x / 2 ^ 971"
    by (simp add: pos_le_divide_eq)
  then have "2 ^ 53 \<le> \<lfloor>x / 2 ^ 971\<rfloor>"
    by (simp only: le_floor_iff)
  with round_half_even_floor[of "x / 2 ^ 971"]
  have "2 ^ 53 \<le> round_half_even (x / 2 ^ 971)" by linarith
  then have "(of_int (2 ^ 53) :: rat) \<le> of_int (round_half_even (x / 2 ^ 971))"
    by (simp only: of_int_le_iff)
  then have "(2::rat) ^ 53 * 2 ^ 971 \<le> of_int (round_half_even (x / 2 ^ 971)) * 2 ^ 971"
    by (simp add: mult_le_cancel_right)
  then have "(2::rat) ^ 1024 \<le> of_int (round_half_even (x / 2 ^ 971)) * 2 ^ 971"
    by (simp only: power_add[symmetric]) simp
  then show ?thesis
    by (simp only: round_double_def Let_def u if_True)
qed








section \<open>Properties of the grid generator\<close>

text \<open>The guard of \<open>generateMatrix\<close> lets pass exactly the positive integers.\<close>

lemma positive_integer_iff:
  "positive_integer v = (isInteger v \<and> \<not> num_le v (Fin 0))"
proof (cases v)
  case (Fin x)
  show ?thesis
  proof
    assume "positive_integer v"
    then obtain n :: nat where "0 < n" "x = of_nat n"
      by (auto simp: positive_integer_def Fin)
    then show "isInteger v \<and> \<not> num_le v (Fin 0)"
      by (simp add: Fin num_le_def num_eq_def)
  next
    assume a: "isInteger v \<and> \<not> num_le v (Fin 0)"
    then have x: "of_int \<lfloor>x\<rfloor> = x" and pos: "0 < x"
      by (auto simp: Fin num_le_def num_eq_def)
    from pos have "0 < \<lfloor>x\<rfloor>" by (metis x of_int_0_less_iff)
    then have n: "of_nat (nat \<lfloor>x\<rfloor>) = (of_int \<lfloor>x\<rfloor> :: rat)" and p: "0 < nat \<lfloor>x\<rfloor>"
      by simp_all
    have "x = of_nat (nat \<lfloor>x\<rfloor>)"
      unfolding n by (rule x[symmetric])
    with p have "0 < nat \<lfloor>x\<rfloor> \<and> x = of_nat (nat \<lfloor>x\<rfloor>)" ..
    then show "positive_integer v"
      unfolding positive_integer_def Fin by blast
  qed
qed (simp_all add: positive_integer_def)

text \<open>
  The loop of \<^verbatim>\<open>Array.from\<close>: when the function never fails, the array has the length
  asked for and holds results of the function; a returned array holds only results of
  the function; an error at the first call is the error of the loop.
\<close>

lemma Array_from_loop_ok:
  assumes "\<And>j. \<exists>x j'. f j = Inr (x, j') \<and> P x"
  shows "\<exists>xs k'. Array_from_loop n f k = Inr (xs, k') \<and> length xs = n \<and> (\<forall>x \<in> set xs. P x)"
proof (induction n arbitrary: k)
  case 0
  show ?case by simp
next
  case (Suc n)
  from assms[of k] obtain x j' where f: "f k = Inr (x, j')" and px: "P x" by blast
  from Suc[of j'] obtain xs k' where
    r: "Array_from_loop n f j' = Inr (xs, k')" and len: "length xs = n" and all: "\<forall>x \<in> set xs. P x"
    by blast
  from f r len px all show ?case by simp
qed


lemma Array_from_loop_first_error:
  "0 < n \<Longrightarrow> f k = Inl e \<Longrightarrow> Array_from_loop n f k = Inl e"
  by (cases n) simp_all

text \<open>The lengths that valid dimensions denote.\<close>

lemma toLength_of_nat: "n < 2 ^ 53 \<Longrightarrow> toLength (Fin (of_nat n)) = n"
  by simp

lemma toLength_large: "2 ^ 32 \<le> n \<Longrightarrow> 2 ^ 32 - 1 < toLength (Fin (of_nat n))"
  by simp


text \<open>
  Past the guard, dimensions below \<open>2^32\<close> give a grid of that shape, and a dimension
  of \<open>2^32\<close> or more gives the \<^verbatim>\<open>RangeError\<close>: at once for \<open>rows\<close>, at the first row for
  \<open>cols\<close>.
\<close>

lemma generateMatrix_valid:
  assumes "0 < n" and "0 < m"
  shows "generateMatrix rnd (Some (Fin (of_nat n))) (Some (Fin (of_nat m))) min_arg max_arg k
      = Array_from (toLength (Fin (of_nat n)))
          (\<lambda>k. case Array_from (toLength (Fin (of_nat m)))
                      (\<lambda>k. case randInt rnd (case min_arg of None \<Rightarrow> DEFAULT_MIN_VALUE | Some a \<Rightarrow> a)
                                        (case max_arg of None \<Rightarrow> DEFAULT_MAX_VALUE | Some b \<Rightarrow> b) k of
                              (v, k') \<Rightarrow> Inr (Number v, k')) k of
                 Inl e \<Rightarrow> Inl e
               | Inr (cells, k') \<Rightarrow> Inr (Array cells, k'))
          k"
proof -
  have "positive_integer (Fin (of_nat n))" "positive_integer (Fin (of_nat m))"
    using assms by (auto simp: positive_integer_def)
  then have "isInteger (Fin (of_nat n)) \<and> \<not> num_le (Fin (of_nat n)) (Fin 0)"
    "isInteger (Fin (of_nat m)) \<and> \<not> num_le (Fin (of_nat m)) (Fin 0)"
    unfolding positive_integer_iff by blast+
  then show ?thesis
    unfolding generateMatrix_def Let_def
    by (simp only: option.case simp_thms if_False)
qed

lemma generateMatrix_shape:
  assumes n: "0 < n" "n < 2 ^ 32" and m: "0 < m" "m < 2 ^ 32"
  shows "\<exists>grid k'. generateMatrix rnd (Some (Fin (of_nat n))) (Some (Fin (of_nat m))) min_arg max_arg k
            = Inr (grid, k')
          \<and> length grid = n
          \<and> (\<forall>row \<in> set grid. \<exists>cells. row = Array cells \<and> length cells = m
                \<and> (\<forall>cell \<in> set cells. \<exists>v. cell = Number v))"
proof -
  define minv where "minv = (case min_arg of None \<Rightarrow> DEFAULT_MIN_VALUE | Some a \<Rightarrow> a)"
  define maxv where "maxv = (case max_arg of None \<Rightarrow> DEFAULT_MAX_VALUE | Some b \<Rightarrow> b)"
  define cell_of :: "nat \<Rightarrow> error + (jsval \<times> nat)" where
    "cell_of = (\<lambda>k. case randInt rnd minv maxv k of (v, k') \<Rightarrow> Inr (Number v, k'))"
  define row_of :: "nat \<Rightarrow> error + (jsval \<times> nat)" where
    "row_of = (\<lambda>k. case Array_from m cell_of k of Inl e \<Rightarrow> Inl e
                    | Inr (cells, k') \<Rightarrow> Inr (Array cells, k'))"
  have ln: "toLength (Fin (of_nat n)) = n" and lm: "toLength (Fin (of_nat m)) = m"
    using n(2) m(2) by simp_all
  have gen: "generateMatrix rnd (Some (Fin (of_nat n))) (Some (Fin (of_nat m))) min_arg max_arg k
      = Array_from n row_of k"
    unfolding generateMatrix_valid[OF n(1) m(1)] ln lm row_of_def cell_of_def minv_def maxv_def ..
  have an: "Array_from n f j = Array_from_loop n f j" for f :: "nat \<Rightarrow> error + (jsval \<times> nat)" and j
    using n(2) by (simp add: Array_from_def)
  have am: "Array_from m f j = Array_from_loop m f j" for f :: "nat \<Rightarrow> error + (jsval \<times> nat)" and j
    using m(2) by (simp add: Array_from_def)
  have cell: "\<exists>x j'. cell_of j = Inr (x, j') \<and> (\<exists>v. x = Number v)" for j
    by (cases "randInt rnd minv maxv j") (simp add: cell_of_def)
  have row: "\<exists>x j'. row_of j = Inr (x, j')
      \<and> (\<exists>cells. x = Array cells \<and> length cells = m \<and> (\<forall>cell \<in> set cells. \<exists>v. cell = Number v))" for j
  proof -
    from Array_from_loop_ok[of cell_of "\<lambda>x. \<exists>v. x = Number v" m j, OF cell]
    obtain cells k' where "Array_from_loop m cell_of j = Inr (cells, k')"
      "length cells = m" "\<forall>cell \<in> set cells. \<exists>v. cell = Number v"
      by blast
    then show ?thesis
      by (simp add: row_of_def am)
  qed
  from Array_from_loop_ok[of row_of
      "\<lambda>x. \<exists>cells. x = Array cells \<and> length cells = m \<and> (\<forall>cell \<in> set cells. \<exists>v. cell = Number v)"
      n k, OF row]
  show ?thesis
    unfolding gen an by blast
qed

lemma generateMatrix_too_large:
  assumes n: "0 < n" and m: "0 < m" and big: "2 ^ 32 \<le> n \<or> 2 ^ 32 \<le> m"
  shows "generateMatrix rnd (Some (Fin (of_nat n))) (Some (Fin (of_nat m))) min_arg max_arg k
           = Inl RangeError"
proof (cases "2 ^ 32 \<le> n")
  case True
  then have "2 ^ 32 - 1 < toLength (Fin (of_nat n))"
    by (rule toLength_large)
  then show ?thesis
    unfolding generateMatrix_valid[OF n m] by (simp only: Array_from_def if_True)
next
  case False
  with big have "2 ^ 32 \<le> m" by simp
  then have "2 ^ 32 - 1 < toLength (Fin (of_nat m))"
    by (rule toLength_large)
  then have inner: "Array_from (toLength (Fin (of_nat m))) f j = Inl RangeError"
    for f :: "nat \<Rightarrow> error + (jsval \<times> nat)" and j
    by (simp only: Array_from_def if_True)
  from False have ln: "toLength (Fin (of_nat n)) = n" by simp
  from False have "\<not> 2 ^ 32 - 1 < n" by simp
  then have outer: "Array_from n f j = Array_from_loop n f j"
    for f :: "nat \<Rightarrow> error + (jsval \<times> nat)" and j
    by (simp only: Array_from_def if_False)
  show ?thesis
    unfolding generateMatrix_valid[OF n m] ln outer inner
    by (rule Array_from_loop_first_error[OF n]) simp
qed

lemma generateMatrix_error_iff:
  "(generateMatrix rnd (Some rows) (Some cols) min_arg max_arg k = Inl TypeError)
     = (\<not> positive_integer rows \<or> \<not> positive_integer cols)"
proof (cases "positive_integer rows \<and> positive_integer cols")
  case False
  then show ?thesis
    by (auto simp: generateMatrix_def positive_integer_iff Let_def)
next
  case True
  then obtain n m :: nat where n: "0 < n" "rows = Fin (of_nat n)" and m: "0 < m" "cols = Fin (of_nat m)"
    by (auto simp: positive_integer_def)
  have "generateMatrix rnd (Some rows) (Some cols) min_arg max_arg k \<noteq> Inl TypeError"
  proof (cases "2 ^ 32 \<le> n \<or> 2 ^ 32 \<le> m")
    case True
    from generateMatrix_too_large[OF n(1) m(1) True] show ?thesis
      by (simp add: n(2) m(2))
  next
    case False
    then have "n < 2 ^ 32" "m < 2 ^ 32" by simp_all
    from generateMatrix_shape[OF n(1) this(1) m(1) this(2), of rnd min_arg max_arg k]
    show ?thesis
      by (auto simp: n(2) m(2))
  qed
  with True show ?thesis by simp
qed






text \<open>
  The dimensions \<open>2^32\<close> by 1 are positive integers, and \<open>generateMatrix\<close> returns no
  grid for them: the call ends with a \<^verbatim>\<open>RangeError\<close>.
\<close>

theorem generateMatrix_range_error:
  "positive_integer (Fin 4294967296) \<and> positive_integer (Fin 1)
   \<and> generateMatrix (\<lambda>j. 0) (Some (Fin 4294967296)) (Some (Fin 1)) None None 0 = Inl RangeError"
proof (intro conjI)
  show "positive_integer (Fin 4294967296)"
    by (simp add: positive_integer_iff num_le_def num_eq_def)
  show "positive_integer (Fin 1)"
    by (simp add: positive_integer_iff num_le_def num_eq_def)
  show "generateMatrix (\<lambda>j. 0) (Some (Fin 4294967296)) (Some (Fin 1)) None None 0 = Inl RangeError"
    by (simp add: generateMatrix_def num_le_def num_eq_def Array_from_def)
qed

text \<open>
  C4. \<open>generateMatrix\<close> called with \<open>rows\<close> and \<open>cols\<close> fails with the \<open>TypeError\<close> (the
  specification's \<open>InvalidDimension\<close>), and so returns no grid at all, exactly when
  \<open>rows\<close> or \<open>cols\<close> is not a positive integer. When both are positive integers below
  \<open>2^32\<close>, it returns a grid of exactly \<open>rows\<close> rows, each an array of exactly \<open>cols\<close>
  cells that are numbers. When both are positive integers and one is \<open>2^32\<close> or more,
  it fails with a \<^verbatim>\<open>RangeError\<close> and returns no grid either.
\<close>

theorem generateMatrix_dimensions:
  "(generateMatrix rnd (Some rows) (Some cols) min_arg max_arg k = Inl TypeError)
     = (\<not> positive_integer rows \<or> \<not> positive_integer cols)
   \<and> (positive_integer rows \<and> positive_integer cols
        \<and> num_lt rows (Fin (2 ^ 32)) \<and> num_lt cols (Fin (2 ^ 32)) \<longrightarrow>
        (\<exists>grid k'. generateMatrix rnd (Some rows) (Some cols) min_arg max_arg k = Inr (grid, k')
           \<and> Fin (of_nat (length grid)) = rows
           \<and> (\<forall>row \<in> set grid. \<exists>cells. row = Array cells \<and> Fin (of_nat (length cells)) = cols
                 \<and> (\<forall>cell \<in> set cells. \<exists>v. cell = Number v))))
   \<and> (positive_integer rows \<and> positive_integer cols
        \<and> (num_le (Fin (2 ^ 32)) rows \<or> num_le (Fin (2 ^ 32)) cols) \<longrightarrow>
        generateMatrix rnd (Some rows) (Some cols) min_arg max_arg k = Inl RangeError)"
proof (intro conjI impI)
  show "(generateMatrix rnd (Some rows) (Some cols) min_arg max_arg k = Inl TypeError)
     = (\<not> positive_integer rows \<or> \<not> positive_integer cols)"
    by (rule generateMatrix_error_iff)
next
  assume h: "positive_integer rows \<and> positive_integer cols
        \<and> num_lt rows (Fin (2 ^ 32)) \<and> num_lt cols (Fin (2 ^ 32))"
  then obtain n m :: nat where n: "0 < n" "rows = Fin (of_nat n)" and m: "0 < m" "cols = Fin (of_nat m)"
    by (auto simp: positive_integer_def)
  from h have "(of_nat n :: rat) < of_nat (2 ^ 32)" "(of_nat m :: rat) < of_nat (2 ^ 32)"
    by (simp_all add: n(2) m(2))
  then have "n < 2 ^ 32" "m < 2 ^ 32"
    by (simp_all only: of_nat_less_iff)
  from generateMatrix_shape[OF n(1) this(1) m(1) this(2), of rnd min_arg max_arg k]
  show "\<exists>grid k'. generateMatrix rnd (Some rows) (Some cols) min_arg max_arg k = Inr (grid, k')
           \<and> Fin (of_nat (length grid)) = rows
           \<and> (\<forall>row \<in> set grid. \<exists>cells. row = Array cells \<and> Fin (of_nat (length cells)) = cols
                 \<and> (\<forall>cell \<in> set cells. \<exists>v. cell = Number v))"
    unfolding n(2) m(2) by fastforce
next
  assume h: "positive_integer rows \<and> positive_integer cols
        \<and> (num_le (Fin (2 ^ 32)) rows \<or> num_le (Fin (2 ^ 32)) cols)"
  then obtain n m :: nat where n: "0 < n" "rows = Fin (of_nat n)" and m: "0 < m" "cols = Fin (of_nat m)"
    by (auto simp: positive_integer_def)
  from h have "(of_nat (2 ^ 32) :: rat) \<le> of_nat n \<or> (of_nat (2 ^ 32) :: rat) \<le> of_nat m"
    by (auto simp: n(2) m(2) num_le_def num_eq_def)
  then have "2 ^ 32 \<le> n \<or> 2 ^ 32 \<le> m"
    by (simp only: of_nat_le_iff)
  from generateMatrix_too_large[OF n(1) m(1) this]
  show "generateMatrix rnd (Some rows) (Some cols) min_arg max_arg k = Inl RangeError"
    by (simp only: n(2) m(2))
qed


text \<open>
  The theorem at \<open>rows = 0\<close>, at \<open>cols = 5/2\<close>, at a 2 by 3 grid and at \<open>rows = 2^32\<close>.
\<close>

theorem generateMatrix_dimensions_witness:
  "generateMatrix (\<lambda>j. 1 / 2) (Some (Fin 0)) (Some (Fin 3)) None None 0 = Inl TypeError
   \<and> generateMatrix (\<lambda>j. 1 / 2) (Some (Fin 2)) (Some (Fin (5 / 2))) None None 0 = Inl TypeError
   \<and> (\<exists>grid k'. generateMatrix (\<lambda>j. 1 / 2) (Some (Fin 2)) (Some (Fin 3)) None None 0 = Inr (grid, k')
         \<and> Fin (of_nat (length grid)) = Fin 2
         \<and> (\<forall>row \<in> set grid. \<exists>cells. row = Array cells \<and> Fin (of_nat (length cells)) = Fin 3
               \<and> (\<forall>cell \<in> set cells. \<exists>v. cell = Number v)))
   \<and> generateMatrix (\<lambda>j. 1 / 2) (Some (Fin 4294967296)) (Some (Fin 3)) None None 0 = Inl RangeError"
proof (intro conjI)
  have "\<not> positive_integer (Fin 0)"
    by (simp add: positive_integer_def)
  then show "generateMatrix (\<lambda>j. 1 / 2) (Some (Fin 0)) (Some (Fin 3)) None None 0 = Inl TypeError"
    using generateMatrix_dimensions[of "\<lambda>j. 1 / 2" "Fin 0" "Fin 3" None None 0] by blast
next
  have "\<lfloor>5 / 2 :: rat\<rfloor> = 2"
    by (simp add: floor_eq_iff)
  then have "\<not> positive_integer (Fin (5 / 2))"
    by (simp add: positive_integer_iff)
  then show "generateMatrix (\<lambda>j. 1 / 2) (Some (Fin 2)) (Some (Fin (5 / 2))) None None 0 = Inl TypeError"
    using generateMatrix_dimensions[of "\<lambda>j. 1 / 2" "Fin 2" "Fin (5 / 2)" None None 0] by blast
next
  have "positive_integer (Fin 2) \<and> positive_integer (Fin 3)
      \<and> num_lt (Fin 2) (Fin (2 ^ 32)) \<and> num_lt (Fin 3) (Fin (2 ^ 32))"
    by (simp add: positive_integer_iff num_le_def num_eq_def)
  then show "\<exists>grid k'. generateMatrix (\<lambda>j. 1 / 2) (Some (Fin 2)) (Some (Fin 3)) None None 0 = Inr (grid, k')
         \<and> Fin (of_nat (length grid)) = Fin 2
         \<and> (\<forall>row \<in> set grid. \<exists>cells. row = Array cells \<and> Fin (of_nat (length cells)) = Fin 3
               \<and> (\<forall>cell \<in> set cells. \<exists>v. cell = Number v))"
    using generateMatrix_dimensions[of "\<lambda>j. 1 / 2" "Fin 2" "Fin 3" None None 0] by blast
next
  have "positive_integer (Fin 4294967296) \<and> positive_integer (Fin 3)
      \<and> (num_le (Fin (2 ^ 32)) (Fin 4294967296) \<or> num_le (Fin (2 ^ 32)) (Fin 3))"
    by (simp add: positive_integer_iff num_le_def num_eq_def)
  then show "generateMatrix (\<lambda>j. 1 / 2) (Some (Fin 4294967296)) (Some (Fin 3)) None None 0 = Inl RangeError"
    using generateMatrix_dimensions[of "\<lambda>j. 1 / 2" "Fin 4294967296" "Fin 3" None None 0] by blast
qed



text \<open>
  With the same bounds and a random number 0, the cell is \<open>NaN\<close>: the product of 0 and
  \<^verbatim>\<open>Infinity\<close>.
\<close>

lemma generateMatrix_nan_cell:
  "generateMatrix (\<lambda>j. 0) (Some (Fin 1)) (Some (Fin 1))
     (Some (Fin (of_int (- (2 ^ 1023))))) (Some (Fin (of_int (2 ^ 1023)))) 0
   = Inr ([Array [Number NaN]], 1)"
proof -
  have sub: "js_sub (Fin (2 ^ 1023)) (Fin (- (2 ^ 1023))) = PosInf"
  proof -
    have "(2::rat) ^ 1024 \<le> 2 ^ 1023 + 2 ^ 1023" by simp
    then have "round_double (2 ^ 1023 + 2 ^ 1023) = PosInf"
      by (rule round_double_overflow)
    then show ?thesis
      by (simp only: js_sub_def js_neg.simps js_add.simps minus_minus)
  qed
  have "randInt (\<lambda>j. 0) (Fin (- (2 ^ 1023))) (Fin (2 ^ 1023)) 0 = (NaN, 1)"
  proof -
    have "\<not> num_lt (Fin (2 ^ 1023)) (Fin (- (2 ^ 1023)))" by simp
    then show ?thesis
      unfolding randInt_def Math_random_def
      by (simp only: if_False prod.case sub) simp
  qed
  then show ?thesis
    by (simp add: generateMatrix_def num_le_def num_eq_def Array_from_def)
qed



section \<open>Properties of the table renderer\<close>

text \<open>
  On a matrix with at least one row the first two strings printed are the header,
  after a line feed, and the separator of the same length, whether or not a later row
  ends the call with an error.
\<close>

lemma prettyPrintMatrix_table_head:
  assumes "matrix \<noteq> []"
  shows "\<exists>header rest. fst (prettyPrintMatrix numberToString isTTY (Array matrix) useColors_option)
            = (10 # header) # replicate (length header) 45 # rest"
proof -
  obtain lines e where
    "printRows numberToString (case useColors_option of None \<Rightarrow> isTTY | Some b \<Rightarrow> b)
       (fold max (map (\<lambda>row. case row of Array cells \<Rightarrow> length cells | _ \<Rightarrow> 0) matrix) 0)
       (computeColWidth numberToString matrix) (val (findGlobalMin matrix))
       (rowsWithMin (findGlobalMin matrix)) matrix 0 = (lines, e)"
    by (rule prod.exhaust)
  with assms show ?thesis
    by (cases e) (simp_all add: prettyPrintMatrix_def Let_def)
qed

text \<open>
  C8. When the grid has no rows, or is not an array at all, \<open>prettyPrintMatrix\<close> prints
  exactly one string, the empty-matrix notice, and returns normally: no header, no
  separator, no row and no trailer is printed, whatever the options and the terminal
  are.
\<close>

theorem prettyPrintMatrix_empty_grid:
  "prettyPrintMatrix numberToString isTTY (Array []) useColors_option = ([EMPTY_MATRIX_NOTICE], None)
   \<and> prettyPrintMatrix numberToString isTTY Undefined useColors_option = ([EMPTY_MATRIX_NOTICE], None)
   \<and> prettyPrintMatrix numberToString isTTY Null useColors_option = ([EMPTY_MATRIX_NOTICE], None)
   \<and> prettyPrintMatrix numberToString isTTY (Number n) useColors_option = ([EMPTY_MATRIX_NOTICE], None)
   \<and> prettyPrintMatrix numberToString isTTY (Str s) useColors_option = ([EMPTY_MATRIX_NOTICE], None)"
  by (simp add: prettyPrintMatrix_def)

section \<open>Determinism of the analyses\<close>

text \<open>
  A relation in which every state has at most one successor reaches at most one
  state without successor.
\<close>

lemma unique_end:
  assumes det: "\<And>s a b. R s a \<Longrightarrow> R s b \<Longrightarrow> a = b"
    and a: "R\<^sup>*\<^sup>* s a" and halt_a: "\<And>t. \<not> R a t"
    and b: "R\<^sup>*\<^sup>* s b" and halt_b: "\<And>t. \<not> R b t"
  shows "a = b"
  using a b
proof (induction rule: converse_rtranclp_induct)
  case base
  with halt_a show ?case
    by (auto elim: converse_rtranclpE)
next
  case (step s s')
  from step.prems show ?case
  proof (cases rule: converse_rtranclpE)
    case base
    with step.hyps(1) halt_b show ?thesis by blast
  next
    case (step s'')
    with det \<open>R s s'\<close> have "s'' = s'" by blast
    with step step.IH show ?thesis by blast
  qed
qed

text \<open>Both transition relations are deterministic, and a result has no successor.\<close>

lemma analyzer_step_deterministic:
  "analyzer_step row s a \<Longrightarrow> analyzer_step row s b \<Longrightarrow> a = b"
  by (induction rule: analyzer_step.induct) (auto elim: analyzer_step.cases)

lemma analyzer_Result_halts: "\<not> analyzer_step row (Result r) t"
  by (auto elim: analyzer_step.cases)

lemma locator_step_deterministic:
  "locator_step matrix s a \<Longrightarrow> locator_step matrix s b \<Longrightarrow> a = b"
  by (induction rule: locator_step.induct) (auto elim: locator_step.cases simp: isNaN_def)

lemma locator_Returned_halts: "\<not> locator_step matrix (Returned r) t"
  by (auto elim: locator_step.cases)


text \<open>
  The transition relations run the loops of the functional model: from the state of a
  loop, they reach the state the loop function computes.
\<close>

lemma chain_loop_stop:
  "\<not> (i < length row \<and> signOf (row ! i) = s) \<Longrightarrow> chain_loop row s i c = (i, c)"
  by (subst chain_loop.simps) auto

lemma chain_loop_idem:
  "chain_loop row s (fst (chain_loop row s i c)) (snd (chain_loop row s i c)) = chain_loop row s i c"
proof (induction row s i c rule: chain_loop.induct)
  case (1 row s i c)
  show ?case
  proof (cases "i < length row \<and> signOf (row ! i) = s")
    case True
    then have "chain_loop row s i c = chain_loop row s (i + 1) (c + 1)"
      by (subst chain_loop.simps) simp
    with 1[OF True] show ?thesis by simp
  next
    case False
    then have "chain_loop row s i c = (i, c)"
      by (rule chain_loop_stop)
    then show ?thesis by simp
  qed
qed

lemma chain_loop_steps:
  "(analyzer_step row)\<^sup>*\<^sup>* (Inner i s c r)
     (Inner (fst (chain_loop row s i c)) s (snd (chain_loop row s i c)) r)"
proof (induction row s i c rule: chain_loop.induct)
  case (1 row s i c)
  show ?case
  proof (cases "i < length row \<and> signOf (row ! i) = s")
    case True
    then have "analyzer_step row (Inner i s c r) (Inner (i + 1) s (c + 1) r)"
      by (intro extend_chain) simp_all
    moreover from True have "chain_loop row s i c = chain_loop row s (i + 1) (c + 1)"
      by (subst chain_loop.simps) simp
    ultimately show ?thesis
      using 1[OF True] by (simp add: converse_rtranclp_into_rtranclp)
  next
    case False
    then have "chain_loop row s i c = (i, c)"
      by (rule chain_loop_stop)
    then show ?thesis by simp
  qed
qed

lemma scan_loop_steps:
  "(analyzer_step row)\<^sup>*\<^sup>* (Outer i r) (Result (scan_loop row i r))"
proof (induction row i r rule: scan_loop.induct)
  case (1 row i r)
  show ?case
  proof (cases "i < length row")
    case False
    then have "scan_loop row i r = r"
      by (subst scan_loop.simps) simp
    moreover from False have "analyzer_step row (Outer i r) (Result r)"
      by (rule leave_outer)
    ultimately show ?thesis by simp
  next
    case inside: True
    show ?thesis
    proof (cases "signOf (row ! i) = 0")
      case True
      with inside have "scan_loop row i r = scan_loop row (i + 1) r"
        by (subst scan_loop.simps) simp
      moreover from inside True have "analyzer_step row (Outer i r) (Outer (i + 1) r)"
        by (rule skip_neutral)
      moreover from 1(1)[OF inside refl] True
      have "(analyzer_step row)\<^sup>*\<^sup>* (Outer (i + 1) r) (Result (scan_loop row (i + 1) r))"
        by simp
      ultimately show ?thesis
        by (simp add: converse_rtranclp_into_rtranclp)
    next
      case False
      define s where "s = signOf (row ! i)"
      obtain i' chain where cl: "chain_loop row s i 0 = (i', chain)"
        by (cases "chain_loop row s i 0")
      define r' where "r' = (if chain \<ge> 3 then r + chain div 3 else r)"
      from inside False have "analyzer_step row (Outer i r) (Inner i s 0 r)"
        unfolding s_def by (rule enter_inner)
      moreover have "(analyzer_step row)\<^sup>*\<^sup>* (Inner i s 0 r) (Inner i' s chain r)"
        using chain_loop_steps[of row i s 0 r] cl by simp
      moreover have "analyzer_step row (Inner i' s chain r) (Outer i' r')"
      proof -
        have "chain_loop row s i' chain = (i', chain)"
          using cl chain_loop_idem[of row s i 0] by simp
        then have "\<not> (i' < length row \<and> signOf (row ! i') = s)"
          using chain_loop_advances[of i' row s chain] by auto
        then show ?thesis
          unfolding r'_def by (rule leave_inner)
      qed
      moreover have "(analyzer_step row)\<^sup>*\<^sup>* (Outer i' r') (Result (scan_loop row i' r'))"
        using 1(2)[OF inside refl _ cl[symmetric, unfolded s_def]] False
        by (simp add: r'_def s_def)
      moreover have "scan_loop row i r = scan_loop row i' r'"
        using inside False cl
        by (subst scan_loop.simps) (simp add: r'_def s_def Let_def)
      ultimately show ?thesis
        by (metis (no_types, lifting) converse_rtranclp_into_rtranclp rtranclp_trans)
    qed
  qed
qed


lemma col_loop_unfold:
  "c < length row \<Longrightarrow>
   col_loop row r c (mv, ps) = col_loop row r (c + 1) (cell_update row r c (mv, ps))"
  by (subst col_loop.simps) (simp add: cell_update_def split: jsval.splits)

lemma col_loop_done: "\<not> c < length row \<Longrightarrow> col_loop row r c (mv, ps) = (mv, ps)"
  by (subst col_loop.simps) simp

lemma cell_update_step:
  assumes "r < length matrix" and "c < length (elements (matrix ! r))"
  shows "locator_step matrix (Scan r c mv ps)
           (Scan r (c + 1) (fst (cell_update (elements (matrix ! r)) r c (mv, ps)))
                           (snd (cell_update (elements (matrix ! r)) r c (mv, ps))))"
proof (cases "elements (matrix ! r) ! c")
  case (Number v)
  show ?thesis
  proof (cases "isNaN v")
    case True
    with Number have "\<not> is_numeric (elements (matrix ! r) ! c)" by simp
    from skip_cell[OF assms this] Number True show ?thesis
      by (simp add: cell_update_def)
  next
    case False
    consider "num_lt v mv" | "\<not> num_lt v mv" "num_eq v mv" | "\<not> num_lt v mv" "\<not> num_eq v mv"
      by blast
    then show ?thesis
    proof cases
      case 1
      from smaller[OF assms Number False 1] Number False 1 show ?thesis
        by (simp add: cell_update_def)
    next
      case 2
      from equal[OF assms Number False 2] Number False 2 show ?thesis
        by (simp add: cell_update_def)
    next
      case 3
      from larger[OF assms Number False 3] Number False 3 show ?thesis
        by (simp add: cell_update_def)
    qed
  qed
next
  case Undefined
  then have "\<not> is_numeric (elements (matrix ! r) ! c)" by simp
  from skip_cell[OF assms this] Undefined show ?thesis
    by (simp add: cell_update_def)
next
  case Null
  then have "\<not> is_numeric (elements (matrix ! r) ! c)" by simp
  from skip_cell[OF assms this] Null show ?thesis
    by (simp add: cell_update_def)
next
  case (Str s)
  then have "\<not> is_numeric (elements (matrix ! r) ! c)" by simp
  from skip_cell[OF assms this] Str show ?thesis
    by (simp add: cell_update_def)
next
  case (Array xs)
  then have "\<not> is_numeric (elements (matrix ! r) ! c)" by simp
  from skip_cell[OF assms this] Array show ?thesis
    by (simp add: cell_update_def)
qed

lemma col_loop_steps:
  assumes "r < length matrix"
  shows "c \<le> length (elements (matrix ! r)) \<Longrightarrow>
         (locator_step matrix)\<^sup>*\<^sup>* (Scan r c mv ps)
           (Scan r (length (elements (matrix ! r)))
              (fst (col_loop (elements (matrix ! r)) r c (mv, ps)))
              (snd (col_loop (elements (matrix ! r)) r c (mv, ps))))"
proof (induction "length (elements (matrix ! r)) - c" arbitrary: c mv ps)
  case 0
  then have "c = length (elements (matrix ! r))" by simp
  then show ?case by (simp add: col_loop_done)
next
  case (Suc n)
  then have c: "c < length (elements (matrix ! r))" by simp
  obtain mv' ps' where u: "cell_update (elements (matrix ! r)) r c (mv, ps) = (mv', ps')"
    by (cases "cell_update (elements (matrix ! r)) r c (mv, ps)")
  from cell_update_step[OF assms c, of mv ps] u
  have "locator_step matrix (Scan r c mv ps) (Scan r (c + 1) mv' ps')"
    by simp
  moreover from Suc(2) c have "n = length (elements (matrix ! r)) - (c + 1)" by simp
  from Suc(1)[OF this, of mv' ps'] c
  have "(locator_step matrix)\<^sup>*\<^sup>* (Scan r (c + 1) mv' ps')
           (Scan r (length (elements (matrix ! r)))
              (fst (col_loop (elements (matrix ! r)) r (c + 1) (mv', ps')))
              (snd (col_loop (elements (matrix ! r)) r (c + 1) (mv', ps'))))"
    by simp
  ultimately show ?case
    by (simp add: col_loop_unfold[OF c] u converse_rtranclp_into_rtranclp)
qed

lemma row_loop_steps:
  "(locator_step matrix)\<^sup>*\<^sup>* (Scan r 0 mv ps)
     (Returned \<lparr> val = (if num_eq (fst (row_loop matrix r (mv, ps))) PosInf then None
                        else Some (fst (row_loop matrix r (mv, ps)))),
                 positions = snd (row_loop matrix r (mv, ps)),
                 rowsWithMin = set (map rowIndex (snd (row_loop matrix r (mv, ps)))) \<rparr>)"
proof (induction "length matrix - r" arbitrary: r mv ps)
  case 0
  then have out: "\<not> r < length matrix" by simp
  then have "row_loop matrix r (mv, ps) = (mv, ps)"
    by (subst row_loop.simps) simp
  moreover have "locator_step matrix (Scan r 0 mv ps)
      (Returned \<lparr> val = (if num_eq mv PosInf then None else Some mv), positions = ps,
                  rowsWithMin = set (map rowIndex ps) \<rparr>)"
    by (rule leave_rows[OF out])
  ultimately show ?case
    by (simp only: fst_conv snd_conv r_into_rtranclp)
next
  case (Suc n)
  then have r: "r < length matrix" by simp
  obtain mv' ps' where cl: "col_loop (elements (matrix ! r)) r 0 (mv, ps) = (mv', ps')"
    by (cases "col_loop (elements (matrix ! r)) r 0 (mv, ps)")
  have "(locator_step matrix)\<^sup>*\<^sup>* (Scan r 0 mv ps) (Scan r (length (elements (matrix ! r))) mv' ps')"
    using col_loop_steps[OF r, of 0 mv ps] cl by simp
  moreover have "locator_step matrix (Scan r (length (elements (matrix ! r))) mv' ps') (Scan (r + 1) 0 mv' ps')"
    by (rule next_row[OF r]) simp
  moreover from Suc(2) r have "n = length matrix - (r + 1)" by simp
  note Suc(1)[OF this, of mv' ps']
  moreover from r have "row_loop matrix r (mv, ps) = row_loop matrix (r + 1) (mv', ps')"
    by (subst row_loop.simps) (simp add: cl)
  ultimately show ?case
    by (metis (no_types, lifting) rtranclp.rtrancl_into_rtrancl rtranclp_trans)
qed

text \<open>Every invocation returns, and returns the value of the function.\<close>

lemma analyzer_run_function: "analyzer_run v (minReplacementsToAvoidTriples v)"
proof (cases v)
  case (Array row)
  show ?thesis
  proof (cases "length row = 0")
    case True
    with Array show ?thesis by (simp add: early_return)
  next
    case False
    from loop_return[OF False scan_loop_steps[of row 0 0]] False Array show ?thesis
      by simp
  qed
qed (simp_all add: early_return)

lemma locator_run_function: "locator_run matrix (findGlobalMin matrix)"
  using row_loop_steps[of matrix 0 PosInf "[]"]
  by (simp add: locator_run_def findGlobalMin_def case_prod_beta)

text \<open>No invocation returns anything else.\<close>

lemma analyzer_run_loop:
  assumes "analyzer_run (Array row) a" and "length row \<noteq> 0"
  shows "(analyzer_step row)\<^sup>*\<^sup>* (Outer 0 0) (Result a)"
  using assms by (cases rule: analyzer_run.cases) auto

lemma analyzer_run_early:
  assumes "analyzer_run v a" and "case v of Array row \<Rightarrow> length row = 0 | _ \<Rightarrow> True"
  shows "a = 0"
  using assms by (cases rule: analyzer_run.cases) auto

lemma analyzer_run_unique:
  assumes "analyzer_run v a" and "analyzer_run v b"
  shows "a = b"
proof (cases "case v of Array row \<Rightarrow> length row = 0 | _ \<Rightarrow> True")
  case True
  from analyzer_run_early[OF assms(1) True] analyzer_run_early[OF assms(2) True]
  show ?thesis by simp
next
  case False
  then obtain row where v: "v = Array row" and row: "length row \<noteq> 0"
    by (cases v) auto
  have "Result a = Result b"
    by (rule unique_end[of "analyzer_step row",
          OF _ analyzer_run_loop[OF assms(1)[unfolded v] row] _
               analyzer_run_loop[OF assms(2)[unfolded v] row]])
       (auto dest: analyzer_step_deterministic simp: analyzer_Result_halts)
  then show ?thesis by simp
qed

lemma locator_run_unique:
  assumes "locator_run matrix a" and "locator_run matrix b"
  shows "a = b"
proof -
  have "Returned a = Returned b"
    by (rule unique_end[of "locator_step matrix", OF _ assms(1)[unfolded locator_run_def] _
          assms(2)[unfolded locator_run_def]])
       (auto dest: locator_step_deterministic simp: locator_Returned_halts)
  then show ?thesis by simp
qed

text \<open>
  C7. Two invocations of \<open>minReplacementsToAvoidTriples\<close> on the same input return the
  same count, and two invocations of \<open>findGlobalMin\<close> on the same grid return the same
  value, the same list of positions in the same order and the same set of rows. (By
  \<open>analyzer_run_function\<close> and \<open>locator_run_function\<close> an invocation always returns,
  and what it returns is the value of the function of the first sections.)
\<close>

theorem analyses_deterministic:
  "(analyzer_run v r1 \<and> analyzer_run v r2 \<longrightarrow> r1 = r2)
   \<and> (locator_run matrix m1 \<and> locator_run matrix m2 \<longrightarrow>
        val m1 = val m2 \<and> positions m1 = positions m2 \<and> rowsWithMin m1 = rowsWithMin m2)"
  by (auto dest: analyzer_run_unique locator_run_unique)


text \<open>
  The theorem on the row \<open>[1,2,3]\<close> and the grid \<open>[[5,1],[1,3]]\<close>: the invocations return
  1 and the positions \<open>(0,1), (1,0)\<close>, and so cannot return 0, or the positions in the
  other order.
\<close>

theorem analyses_deterministic_witness:
  "analyzer_run (Array [Number (Fin 1), Number (Fin 2), Number (Fin 3)]) 1
   \<and> \<not> analyzer_run (Array [Number (Fin 1), Number (Fin 2), Number (Fin 3)]) 0
   \<and> locator_run [Array [Number (Fin 5), Number (Fin 1)], Array [Number (Fin 1), Number (Fin 3)]]
         \<lparr> val = Some (Fin 1),
           positions = [\<lparr>rowIndex = 0, colIndex = 1\<rparr>, \<lparr>rowIndex = 1, colIndex = 0\<rparr>],
           rowsWithMin = {0, 1} \<rparr>
   \<and> \<not> locator_run [Array [Number (Fin 5), Number (Fin 1)], Array [Number (Fin 1), Number (Fin 3)]]
         \<lparr> val = Some (Fin 1),
           positions = [\<lparr>rowIndex = 1, colIndex = 0\<rparr>, \<lparr>rowIndex = 0, colIndex = 1\<rparr>],
           rowsWithMin = {0, 1} \<rparr>"
proof -
  define row where "row = Array [Number (Fin 1), Number (Fin 2), Number (Fin 3)]"
  define matrix where
    "matrix = [Array [Number (Fin 5), Number (Fin 1)], Array [Number (Fin 1), Number (Fin 3)]]"
  define found :: GlobalMinResult where
    "found = \<lparr> val = Some (Fin 1),
           positions = [\<lparr>rowIndex = 0, colIndex = 1\<rparr>, \<lparr>rowIndex = 1, colIndex = 0\<rparr>],
           rowsWithMin = {0, 1} \<rparr>"
  define other :: GlobalMinResult where
    "other = \<lparr> val = Some (Fin 1),
           positions = [\<lparr>rowIndex = 1, colIndex = 0\<rparr>, \<lparr>rowIndex = 0, colIndex = 1\<rparr>],
           rowsWithMin = {0, 1} \<rparr>"
  have "minReplacementsToAvoidTriples row = 1"
    unfolding row_def minReplacements_spec spec_minReplacements_def by (simp add: isNaN_def)
  with analyzer_run_function[of row] have a: "analyzer_run row 1"
    by simp
  have "findGlobalMin matrix = found"
    by (simp add: matrix_def found_def findGlobalMin_def row_loop.simps col_loop.simps
        isNaN_def num_eq_def insert_commute)
  with locator_run_function[of matrix] have l: "locator_run matrix found"
    by simp
  have na: "\<not> analyzer_run row 0"
  proof
    assume "analyzer_run row 0"
    with a analyses_deterministic[of row 1 0] show False by simp
  qed
  have nl: "\<not> locator_run matrix other"
  proof
    assume "locator_run matrix other"
    with l analyses_deterministic[of _ _ _ matrix found other] show False
      by (simp add: found_def other_def)
  qed
  from a na l nl show ?thesis
    unfolding row_def matrix_def found_def other_def by blast
qed

end
